theory Spec2Isabelle
  imports Complex_Main "HOL-Library.Sublist"
begin

section \<open>JavaScript values used by the engine\<close>

text \<open>
  A JavaScript number is \<open>NaN\<close>, one of the two infinities, or a finite value. The finite
  doubles are rationals, so \<open>Finite\<close> carries a rational; the two zeros are identified (the
  engine only compares numbers and prints them, and neither tells the zeros apart).
\<close>

datatype number = NaN | NegInfinity | Finite rat | Infinity

text \<open>The relational operators \<open><\<close>, \<open><=\<close> and \<open>>\<close>: every comparison with \<open>NaN\<close> is false.\<close>

fun js_lt :: "number \<Rightarrow> number \<Rightarrow> bool" where
  "js_lt (Finite a) (Finite b) = (a < b)"
| "js_lt NegInfinity (Finite b) = True"
| "js_lt NegInfinity Infinity = True"
| "js_lt (Finite a) Infinity = True"
| "js_lt _ _ = False"

fun js_le :: "number \<Rightarrow> number \<Rightarrow> bool" where
  "js_le NaN _ = False"
| "js_le _ NaN = False"
| "js_le x y = (x = y \<or> js_lt x y)"

definition js_gt :: "number \<Rightarrow> number \<Rightarrow> bool" where
  "js_gt x y = js_lt y x"

definition isNaN :: "number \<Rightarrow> bool" where
  "isNaN x = (x = NaN)"

text \<open>\<open>new Error(message)\<close>, and whatever a rejected HTTP request or a property read on
  \<open>undefined\<close> throws.\<close>

datatype error = Error string | AxiosError | TypeError

text \<open>Strings are lists of characters; the engine looks at no character other than the
  colon and those of \<open>TB\<close> and \<open>thor1\<close>. \<open>s.split(sep)\<close> for a one-character separator
  never returns the empty array.\<close>

fun split :: "char \<Rightarrow> string \<Rightarrow> string list" where
  "split sep [] = [[]]"
| "split sep (c # cs) =
     (if c = sep then [] # split sep cs
      else (case split sep cs of [] \<Rightarrow> [[c]] | w # ws \<Rightarrow> (c # w) # ws))"

definition startsWith :: "string \<Rightarrow> string \<Rightarrow> bool" where
  "startsWith s p = prefix p s"

section \<open>Data model\<close>

text \<open>One entry of the indexer's answer (\<open>MidgardAction\<close>). The fields typed
  \<open>unknown[]\<close> (\<open>in\<close>, \<open>out\<close>) and \<open>networkFees\<close> are never read and are left out.\<close>

record MidgardSend =
  code :: string
  memo :: string
  reason :: string

record MidgardMetadata =
  send :: "MidgardSend option"

record MidgardAction =
  type :: string
  date :: string
  height :: string
  pools :: "string list"
  status :: string
  metadata :: MidgardMetadata

text \<open>The body of the indexer's answer; \<open>actions\<close> may be missing.\<close>

record MidgardData =
  actions :: "MidgardAction list option"

text \<open>The \<open>data\<close> object of a \<open>ThorBondAction\<close>; its \<open>memo\<close> is \<open>undefined\<close> when the
  transaction carries no send metadata.\<close>

record ActionData =
  height :: string
  pools :: "string list"
  status :: string
  metadata :: MidgardMetadata
  memo :: "string option"

record ThorBondAction =
  type :: string
  data :: ActionData
  timestamp :: number

record ListingMemo =
  nodeAddress :: string
  operatorAddress :: string
  minRune :: number
  maxRune :: number
  feePercentage :: number

text \<open>\<open>ListingParams\<close> has the fields of \<open>ListingMemo\<close>.\<close>

type_synonym ListingParams = ListingMemo

record WhitelistRequestParams =
  nodeAddress :: string
  userAddress :: string
  amount :: number

text \<open>\<open>new Date(t / 1000000)\<close> for a timestamp \<open>t\<close> in nanoseconds. The floating-point
  quotient and the clipping done by \<open>Date\<close> are not computed: the value records the
  timestamp it was built from.\<close>

datatype Date = DateOfNanos number

record Node =
  operator :: string
  address :: string
  bondingCapacity :: number
  minimumBond :: number
  feePercentage :: number
  createdAt :: Date

datatype Status = pending | approved | rejected | bonded

record WhitelistRequest =
  node :: Node
  walletAddress :: string
  intendedBondAmount :: number
  status :: Status
  createdAt :: Date

text \<open>What \<open>getWhitelistRequests\<close> returns: \<open>{operator, user}\<close>.\<close>

record WhitelistRequests =
  operator :: "WhitelistRequest list"
  user :: "WhitelistRequest list"

record BondInfo =
  isBondProvider :: bool
  bond :: number

text \<open>The node-state service's answer, as far as the engine reads it:
  \<open>data?.bond_providers?.providers\<close>, each level possibly missing.\<close>

record BondProvider =
  bond_address :: string
  bond :: string

record BondProviders =
  providers :: "BondProvider list option"

record NodeData =
  bond_providers :: "BondProviders option"

text \<open>The engine object: the cached actions and the initialization flag.\<close>

record ThorBondEngine =
  actions :: "ThorBondAction list"
  isInitialized :: bool

section \<open>The engine\<close>

text \<open>
  The functions of the language and of the network that the engine calls are arguments of
  the model: \<open>Number\<close> (string to number), \<open>parseInt\<close>, \<open>ToString\<close> (the conversion a
  template literal applies to a number), \<open>midgard\<close> (the outcome of the one request to the
  indexer) and \<open>thornode\<close> (the outcome of a request to the node-state service for a node
  address). An HTTP outcome is \<open>Inl e\<close> when the request is rejected with \<open>e\<close>, and
  \<open>Inr d\<close> for a response whose \<open>data\<close> property is \<open>d\<close>. The node-state service is taken
  to answer the same for the same address during one call of \<open>getWhitelistRequests\<close>, and
  no other call of the engine runs while one is suspended on a request.

  A local variable of the source whose name is also a field name carries a prime
  (\<open>memo'\<close>, \<open>nodeAddress'\<close>). A field name shared by two records is written with the
  record's name (\<open>Node.operator\<close>, \<open>ListingMemo.nodeAddress\<close>). The methods that hand a memo
  to the wallet extension, and \<open>refreshActions\<close>, are not part of the model.
\<close>

definition newEngine :: ThorBondEngine where
  "newEngine = \<lparr>ThorBondEngine.actions = [], isInitialized = False\<rparr>"

definition parseListingMemo :: "(string \<Rightarrow> number) \<Rightarrow> string \<Rightarrow> ListingMemo option" where
  "parseListingMemo Number memo' =
     (let parts = split CHR '':'' memo' in
      if length parts \<noteq> 6 \<or> parts ! 0 \<noteq> ''TB'' then None
      else Some \<lparr>ListingMemo.nodeAddress = parts ! 1,
                 operatorAddress = parts ! 2,
                 minRune = Number (parts ! 3),
                 maxRune = Number (parts ! 4),
                 ListingMemo.feePercentage = Number (parts ! 5)\<rparr>)"

definition transformMidgardAction :: "(string \<Rightarrow> number) \<Rightarrow> MidgardAction \<Rightarrow> ThorBondAction" where
  "transformMidgardAction parseInt action =
     \<lparr>ThorBondAction.type = MidgardAction.type action,
      data = \<lparr>ActionData.height = MidgardAction.height action,
              ActionData.pools = MidgardAction.pools action,
              ActionData.status = MidgardAction.status action,
              ActionData.metadata = MidgardAction.metadata action,
              ActionData.memo = map_option MidgardSend.memo (send (MidgardAction.metadata action))\<rparr>,
      timestamp = parseInt (date action)\<rparr>"

text \<open>The body of the \<open>forEach\<close> in \<open>getNodes\<close>, with the array \<open>nodes\<close> and the set
  \<open>processedAddresses\<close> it updates. \<open>!memo\<close> holds for \<open>undefined\<close> and for the empty string.\<close>

fun getNodes_forEach ::
  "(string \<Rightarrow> number) \<Rightarrow> ThorBondAction list \<Rightarrow> Node list \<Rightarrow> string set \<Rightarrow> Node list" where
  "getNodes_forEach Number [] nodes processedAddresses = nodes"
| "getNodes_forEach Number (action # rest) nodes processedAddresses =
     (case ActionData.memo (data action) of
        None \<Rightarrow> getNodes_forEach Number rest nodes processedAddresses
      | Some memo' \<Rightarrow>
          if memo' = [] then getNodes_forEach Number rest nodes processedAddresses
          else (case parseListingMemo Number memo' of
                  None \<Rightarrow> getNodes_forEach Number rest nodes processedAddresses
                | Some listingMemo \<Rightarrow>
                    if ListingMemo.nodeAddress listingMemo \<in> processedAddresses
                    then getNodes_forEach Number rest nodes processedAddresses
                    else getNodes_forEach Number rest
                           (nodes @ [\<lparr>Node.operator = operatorAddress listingMemo,
                                      address = ListingMemo.nodeAddress listingMemo,
                                      bondingCapacity = maxRune listingMemo,
                                      minimumBond = minRune listingMemo,
                                      Node.feePercentage = ListingMemo.feePercentage listingMemo,
                                      Node.createdAt = DateOfNanos (timestamp action)\<rparr>])
                           (insert (ListingMemo.nodeAddress listingMemo) processedAddresses)))"

definition getNodes :: "(string \<Rightarrow> number) \<Rightarrow> ThorBondEngine \<Rightarrow> error + Node list" where
  "getNodes Number this =
     (if \<not> isInitialized this then Inl (Error ''ThorBondEngine not initialized'')
      else Inr (getNodes_forEach Number (ThorBondEngine.actions this) [] {}))"

text \<open>\<open>response.data?.bond_providers?.providers ?? []\<close>\<close>

definition bondProviders :: "NodeData option \<Rightarrow> BondProvider list" where
  "bondProviders response_data =
     (case response_data of
        None \<Rightarrow> []
      | Some d \<Rightarrow> (case bond_providers d of
                     None \<Rightarrow> []
                   | Some bp \<Rightarrow> (case providers bp of None \<Rightarrow> [] | Some ps \<Rightarrow> ps)))"

text \<open>Everything thrown inside the \<open>try\<close> block is replaced by the one error of the
  \<open>catch\<close> clause. The \<open>providers\<close> property, when present, is an array of objects, as
  the source's type annotation says.\<close>

definition getBondInfoForUser ::
  "(string \<Rightarrow> number) \<Rightarrow> (string \<Rightarrow> error + NodeData option) \<Rightarrow> string \<Rightarrow> string
     \<Rightarrow> error + BondInfo" where
  "getBondInfoForUser Number thornode nodeAddress' userAddress' =
     (if \<not> startsWith nodeAddress' ''thor1'' \<or> \<not> startsWith userAddress' ''thor1''
      then Inl (Error ''Invalid THORChain address'')
      else (case thornode nodeAddress' of
              Inl e \<Rightarrow> Inl (Error ''Failed to retrieve bond info'')
            | Inr response_data \<Rightarrow>
                (let provider = find (\<lambda>bp. bond_address bp = userAddress')
                                  (bondProviders response_data)
                 in (case provider of
                       Some p \<Rightarrow> Inr \<lparr>isBondProvider = True, BondInfo.bond = Number (BondProvider.bond p)\<rparr>
                     | None \<Rightarrow> Inr \<lparr>isBondProvider = False, BondInfo.bond = Finite 0\<rparr>))))"

definition initialize ::
  "(string \<Rightarrow> number) \<Rightarrow> (error + MidgardData option) \<Rightarrow> ThorBondEngine \<Rightarrow> error + ThorBondEngine" where
  "initialize parseInt midgard this =
     (if isInitialized this then Inr this
      else (case midgard of
              Inl e \<Rightarrow> Inl e
            | Inr None \<Rightarrow> Inl TypeError
            | Inr (Some response_data) \<Rightarrow>
                (let actions' = (case MidgardData.actions response_data of None \<Rightarrow> [] | Some as \<Rightarrow> as)
                 in Inr (this\<lparr>ThorBondEngine.actions := map (transformMidgardAction parseInt) actions',
                              isInitialized := True\<rparr>))))"

definition getActions :: "ThorBondEngine \<Rightarrow> error + ThorBondAction list" where
  "getActions this =
     (if \<not> isInitialized this then Inl (Error ''ThorBondEngine not initialized'')
      else Inr (ThorBondEngine.actions this))"

definition createListing :: "(number \<Rightarrow> string) \<Rightarrow> ListingParams \<Rightarrow> error + string" where
  "createListing ToString params =
     (if \<not> startsWith (ListingMemo.nodeAddress params) ''thor1''
        then Inl (Error ''Invalid node address format'')
      else if \<not> startsWith (operatorAddress params) ''thor1''
        then Inl (Error ''Invalid operator address format'')
      else if js_le (minRune params) (Finite 0)
        then Inl (Error ''Minimum RUNE amount must be greater than 0'')
      else if js_le (maxRune params) (minRune params)
        then Inl (Error ''Maximum RUNE amount must be greater than minimum amount'')
      else if js_lt (ListingMemo.feePercentage params) (Finite 0)
              \<or> js_gt (ListingMemo.feePercentage params) (Finite 100)
        then Inl (Error ''Fee percentage must be between 0 and 100'')
      else Inr (''TB:'' @ ListingMemo.nodeAddress params @ '':'' @ operatorAddress params @ '':''
                @ ToString (minRune params) @ '':'' @ ToString (maxRune params) @ '':''
                @ ToString (ListingMemo.feePercentage params)))"

definition createWhitelistRequest :: "(number \<Rightarrow> string) \<Rightarrow> WhitelistRequestParams \<Rightarrow> error + string" where
  "createWhitelistRequest ToString params =
     (if \<not> startsWith (nodeAddress params) ''thor1''
        then Inl (Error ''Invalid node address format'')
      else if \<not> startsWith (userAddress params) ''thor1''
        then Inl (Error ''Invalid user address format'')
      else if js_le (amount params) (Finite 0)
        then Inl (Error ''Amount must be greater than 0'')
      else Inr (''TB:'' @ nodeAddress params @ '':'' @ userAddress params @ '':''
                @ ToString (amount params)))"

text \<open>Lines 331 to 340 of \<open>getWhitelistRequests\<close>: the decoding of a whitelist-request memo,
  written inline in the loop. \<open>None\<close> is a \<open>continue\<close>.\<close>

definition parseWhitelistMemo :: "(string \<Rightarrow> number) \<Rightarrow> string \<Rightarrow> WhitelistRequestParams option" where
  "parseWhitelistMemo Number memo' =
     (let parts = split CHR '':'' memo' in
      if length parts \<noteq> 4 \<or> parts ! 0 \<noteq> ''TB'' then None
      else (let nodeAddress' = parts ! 1; userAddress' = parts ! 2; amountStr = parts ! 3 in
            if \<not> startsWith nodeAddress' ''thor1'' \<or> \<not> startsWith userAddress' ''thor1'' then None
            else (let amount' = Number amountStr in
                  if isNaN amount' \<or> js_le amount' (Finite 0) then None
                  else Some \<lparr>nodeAddress = nodeAddress', userAddress = userAddress',
                             amount = amount'\<rparr>)))"

text \<open>Lines 355 to 364: the status computed from the oracle's answer.\<close>

definition calcStatus :: "BondInfo \<Rightarrow> Status" where
  "calcStatus bondInfo =
     (let status0 = pending;
          status1 = (if isBondProvider bondInfo then approved else status0);
          status2 = (if isBondProvider bondInfo \<and> js_gt (BondInfo.bond bondInfo) (Finite 0)
                     then bonded else status1)
      in status2)"

text \<open>The body of the \<open>for\<close> loop of \<open>getWhitelistRequests\<close> for one action: an error
  thrown, or the two arrays \<open>(requestsUser, requestsOperator)\<close> after the iteration.\<close>

definition getWhitelistRequests_body ::
  "(string \<Rightarrow> number) \<Rightarrow> (string \<Rightarrow> error + NodeData option) \<Rightarrow> ThorBondEngine \<Rightarrow> string
     \<Rightarrow> ThorBondAction \<Rightarrow> WhitelistRequest list \<times> WhitelistRequest list
     \<Rightarrow> error + WhitelistRequest list \<times> WhitelistRequest list" where
  "getWhitelistRequests_body Number thornode this connectedAddress action acc =
     (case acc of (requestsUser, requestsOperator) \<Rightarrow>
      (case ActionData.memo (data action) of
         None \<Rightarrow> Inr acc
       | Some memo' \<Rightarrow>
           if memo' = [] then Inr acc
           else (case parseWhitelistMemo Number memo' of
                   None \<Rightarrow> Inr acc
                 | Some request \<Rightarrow>
                     (case getNodes Number this of
                        Inl e \<Rightarrow> Inl e
                      | Inr nodes \<Rightarrow>
                          (case find (\<lambda>n. address n = nodeAddress request) nodes of
                             None \<Rightarrow> Inl (Error ''Node not found'')
                           | Some node' \<Rightarrow>
                               if userAddress request = connectedAddress
                                  \<or> Node.operator node' = connectedAddress
                               then (case getBondInfoForUser Number thornode (address node')
                                            (userAddress request) of
                                       Inl e \<Rightarrow> Inl e
                                     | Inr bondInfo \<Rightarrow>
                                         (let entry =
                                                \<lparr>node = node',
                                                 walletAddress = userAddress request,
                                                 intendedBondAmount = amount request,
                                                 WhitelistRequest.status = calcStatus bondInfo,
                                                 WhitelistRequest.createdAt =
                                                   DateOfNanos (timestamp action)\<rparr>
                                          in Inr (if userAddress request = connectedAddress
                                                  then requestsUser @ [entry] else requestsUser,
                                                  if Node.operator node' = connectedAddress
                                                  then requestsOperator @ [entry]
                                                  else requestsOperator)))
                               else Inr acc)))))"

fun getWhitelistRequests_loop ::
  "(string \<Rightarrow> number) \<Rightarrow> (string \<Rightarrow> error + NodeData option) \<Rightarrow> ThorBondEngine \<Rightarrow> string
     \<Rightarrow> ThorBondAction list \<Rightarrow> WhitelistRequest list \<times> WhitelistRequest list
     \<Rightarrow> error + WhitelistRequests" where
  "getWhitelistRequests_loop Number thornode this connectedAddress [] acc =
     Inr \<lparr>operator = snd acc, user = fst acc\<rparr>"
| "getWhitelistRequests_loop Number thornode this connectedAddress (action # rest) acc =
     (case getWhitelistRequests_body Number thornode this connectedAddress action acc of
        Inl e \<Rightarrow> Inl e
      | Inr acc' \<Rightarrow> getWhitelistRequests_loop Number thornode this connectedAddress rest acc')"

definition getWhitelistRequests ::
  "(string \<Rightarrow> number) \<Rightarrow> (string \<Rightarrow> error + NodeData option) \<Rightarrow> ThorBondEngine \<Rightarrow> string
     \<Rightarrow> error + WhitelistRequests" where
  "getWhitelistRequests Number thornode this connectedAddress =
     (if \<not> isInitialized this then Inl (Error ''ThorBondEngine not initialized'')
      else getWhitelistRequests_loop Number thornode this connectedAddress
             (ThorBondEngine.actions this) ([], []))"

section \<open>Vocabulary of the statements\<close>

text \<open>The listing that \<open>getNodes\<close> reads from an action: none when the memo is missing or
  empty, otherwise what \<open>parseListingMemo\<close> returns.\<close>

definition listingOf :: "(string \<Rightarrow> number) \<Rightarrow> ThorBondAction \<Rightarrow> ListingMemo option" where
  "listingOf Number action =
     (case ActionData.memo (data action) of
        None \<Rightarrow> None
      | Some m \<Rightarrow> if m = [] then None else parseListingMemo Number m)"

text \<open>The object that \<open>getNodes\<close> pushes for an action and its decoded listing.\<close>

definition nodeOfListing :: "ThorBondAction \<Rightarrow> ListingMemo \<Rightarrow> Node" where
  "nodeOfListing action listingMemo =
     \<lparr>Node.operator = operatorAddress listingMemo,
      address = ListingMemo.nodeAddress listingMemo,
      bondingCapacity = maxRune listingMemo,
      minimumBond = minRune listingMemo,
      Node.feePercentage = ListingMemo.feePercentage listingMemo,
      Node.createdAt = DateOfNanos (timestamp action)\<rparr>"

text \<open>The whitelist request that \<open>getWhitelistRequests\<close> reads from an action.\<close>

definition requestOf :: "(string \<Rightarrow> number) \<Rightarrow> ThorBondAction \<Rightarrow> WhitelistRequestParams option" where
  "requestOf Number action =
     (case ActionData.memo (data action) of
        None \<Rightarrow> None
      | Some m \<Rightarrow> if m = [] then None else parseWhitelistMemo Number m)"

text \<open>The requests of a list of actions whose node address is in a registry, in the order of
  the actions, each with its action and the first registry node of that address.\<close>

fun resolvedRequests ::
  "(string \<Rightarrow> number) \<Rightarrow> Node list \<Rightarrow> ThorBondAction list
     \<Rightarrow> (ThorBondAction \<times> WhitelistRequestParams \<times> Node) list" where
  "resolvedRequests Number nodes [] = []"
| "resolvedRequests Number nodes (a # rest) =
     (case requestOf Number a of
        None \<Rightarrow> resolvedRequests Number nodes rest
      | Some request \<Rightarrow>
          (case find (\<lambda>n. address n = nodeAddress request) nodes of
             None \<Rightarrow> resolvedRequests Number nodes rest
           | Some n \<Rightarrow> (a, request, n) # resolvedRequests Number nodes rest))"



section \<open>Decimal integer literals\<close>

text \<open>
  To evaluate the engine on concrete memos, \<open>Number\<close> and \<open>ToString\<close> are needed on some
  strings and numbers. \<open>decimalNumber\<close> is \<open>Number\<close> on the empty string and on the strings
  made of an optional minus sign and decimal digits, whose value it computes exactly (as
  \<open>Number\<close> does below \<open>2^53\<close>), and on the strings that \<open>Number\<close> maps to \<open>NaN\<close>.
  \<open>decimalString\<close> is \<open>ToString\<close> on \<open>NaN\<close>, the infinities and the integers below
  \<open>10^21\<close> in absolute value. On a string of digits \<open>parseInt\<close> returns what \<open>Number\<close>
  returns. On the other literals that \<open>Number\<close> accepts (a plus sign, fractions, exponents,
  radix prefixes, \<open>Infinity\<close>, surrounding white space) and on the other numbers they are
  not the language's functions, and no statement below evaluates them there.
\<close>

definition isDigit :: "char \<Rightarrow> bool" where
  "isDigit c = (48 \<le> (of_char c :: nat) \<and> (of_char c :: nat) \<le> 57)"

definition digitsValue :: "string \<Rightarrow> nat" where
  "digitsValue ds = foldl (\<lambda>v c. 10 * v + (of_char c - 48)) 0 ds"

definition decimalNumber :: "string \<Rightarrow> number" where
  "decimalNumber s =
     (case s of
        [] \<Rightarrow> Finite 0
      | c # cs \<Rightarrow>
          if c = CHR ''-'' then
            (if cs \<noteq> [] \<and> list_all isDigit cs then Finite (- of_nat (digitsValue cs)) else NaN)
          else if list_all isDigit s then Finite (of_nat (digitsValue s)) else NaN)"

definition digitChar :: "nat \<Rightarrow> char" where
  "digitChar d = ''0123456789'' ! d"

fun natDigits :: "nat \<Rightarrow> string" where
  "natDigits n = (if n < 10 then [] else natDigits (n div 10)) @ [digitChar (n mod 10)]"

declare natDigits.simps [simp del]

definition decimalString :: "number \<Rightarrow> string" where
  "decimalString x =
     (case x of
        NaN \<Rightarrow> ''NaN''
      | Infinity \<Rightarrow> ''Infinity''
      | NegInfinity \<Rightarrow> ''-Infinity''
      | Finite q \<Rightarrow>
          if q = of_int \<lfloor>q\<rfloor> then
            (if q < 0 then CHR ''-'' # natDigits (nat (- \<lfloor>q\<rfloor>)) else natDigits (nat \<lfloor>q\<rfloor>))
          else [])"

section \<open>Splitting and comparing\<close>

lemma split_not_Nil: "split sep s \<noteq> []"
  by (induction s) (auto split: list.splits)

lemma split_no_sep: "sep \<notin> set a \<Longrightarrow> split sep a = [a]"
  by (induction a) auto

lemma split_append_sep: "sep \<notin> set a \<Longrightarrow> split sep (a @ sep # b) = a # split sep b"
  by (induction a) auto

lemma split_hd_prefix: "prefix (split sep s ! 0) s"
proof (induction s)
  case Nil
  show ?case by simp
next
  case (Cons c cs)
  show ?case
  proof (cases "c = sep")
    case True
    then show ?thesis by simp
  next
    case False
    obtain w ws where w: "split sep cs = w # ws"
      using split_not_Nil [of sep cs] by (cases "split sep cs") auto
    with Cons False show ?thesis by simp
  qed
qed

lemma tag_field_startsWith: "split sep s ! 0 = t \<Longrightarrow> startsWith s t"
  using split_hd_prefix [of sep s] by (simp add: startsWith_def)

lemma not_gt_zero: "(isNaN x \<or> js_le x (Finite 0)) = (\<not> js_gt x (Finite 0))"
  by (cases x) (auto simp: isNaN_def js_gt_def)

lemma js_lt_not_le: "js_lt y x \<Longrightarrow> \<not> js_le x y"
  by (cases x; cases y) auto

lemma js_le_not_lt: "js_le x y \<Longrightarrow> \<not> js_lt y x"
  by (cases x; cases y) auto

lemma split_listing_memo:
  assumes "CHR '':'' \<notin> set a" "CHR '':'' \<notin> set b" "CHR '':'' \<notin> set c"
    "CHR '':'' \<notin> set d" "CHR '':'' \<notin> set e"
  shows "split CHR '':'' (''TB:'' @ a @ '':'' @ b @ '':'' @ c @ '':'' @ d @ '':'' @ e)
         = [''TB'', a, b, c, d, e]"
  using assms by (simp add: split_append_sep split_no_sep)

lemma split_whitelist_memo:
  assumes "CHR '':'' \<notin> set a" "CHR '':'' \<notin> set b" "CHR '':'' \<notin> set c"
  shows "split CHR '':'' (''TB:'' @ a @ '':'' @ b @ '':'' @ c) = [''TB'', a, b, c]"
  using assms by (simp add: split_append_sep split_no_sep)

section \<open>Printing and reading decimal integers\<close>

lemma digitChar_code: "d < 10 \<Longrightarrow> (of_char (digitChar d) :: nat) = 48 + d"
proof -
  assume "d < 10"
  then have "d = 0 \<or> d = 1 \<or> d = 2 \<or> d = 3 \<or> d = 4 \<or> d = 5 \<or> d = 6
    \<or> d = 7 \<or> d = 8 \<or> d = 9"
    by presburger
  then show ?thesis
    by (elim disjE) (simp_all add: digitChar_def)
qed

lemma digitsValue_snoc:
  "digitsValue (ds @ [c]) = 10 * digitsValue ds + (of_char c - 48)"
  by (simp add: digitsValue_def)

lemma natDigits_value: "digitsValue (natDigits n) = n"
proof (induction n rule: natDigits.induct)
  case (1 n)
  have last: "(of_char (digitChar (n mod 10)) :: nat) - 48 = n mod 10"
    by (simp add: digitChar_code)
  show ?case
  proof (cases "n < 10")
    case True
    with last have "(of_char (digitChar n) :: nat) - 48 = n" by simp
    with True show ?thesis
      by (subst natDigits.simps) (simp add: digitsValue_def)
  next
    case False
    with 1 have "digitsValue (natDigits (n div 10)) = n div 10" by simp
    with False show ?thesis
      by (subst natDigits.simps) (simp add: digitsValue_snoc last)
  qed
qed

lemma natDigits_digits: "list_all isDigit (natDigits n)"
proof (induction n rule: natDigits.induct)
  case (1 n)
  have "isDigit (digitChar (n mod 10))"
    by (simp add: isDigit_def digitChar_code)
  with 1 show ?case
    by (subst natDigits.simps) simp
qed

lemma natDigits_not_Nil: "natDigits n \<noteq> []"
  by (subst natDigits.simps) simp

lemma isDigit_not_special: "isDigit c \<Longrightarrow> c \<noteq> CHR ''-'' \<and> c \<noteq> CHR '':''"
  by (auto simp: isDigit_def)

lemma decimalNumber_natDigits: "decimalNumber (natDigits n) = Finite (of_nat n)"
proof -
  obtain c cs where cs: "natDigits n = c # cs"
    using natDigits_not_Nil [of n] by (cases "natDigits n") auto
  with natDigits_digits [of n] have "isDigit c" by simp
  then have "c \<noteq> CHR ''-''" using isDigit_not_special by blast
  with cs natDigits_digits [of n] natDigits_value [of n] show ?thesis
    by (simp add: decimalNumber_def)
qed

lemma decimal_roundtrip:
  "decimalNumber (decimalString (Finite (of_int i))) = Finite (of_int i)
   \<and> CHR '':'' \<notin> set (decimalString (Finite (of_int i)))"
proof (cases "i < 0")
  case True
  then have s: "decimalString (Finite (of_int i)) = CHR ''-'' # natDigits (nat (- i))"
    by (simp add: decimalString_def)
  have "decimalNumber (CHR ''-'' # natDigits (nat (- i))) = Finite (- of_nat (nat (- i)))"
    using natDigits_not_Nil natDigits_digits natDigits_value by (simp add: decimalNumber_def)
  moreover have "CHR '':'' \<notin> set (natDigits (nat (- i)))"
    using natDigits_digits [of "nat (- i)"] isDigit_not_special
    by (auto simp: list_all_iff)
  ultimately show ?thesis using True by (simp add: s)
next
  case False
  then have s: "decimalString (Finite (of_int i)) = natDigits (nat i)"
    by (simp add: decimalString_def)
  have "CHR '':'' \<notin> set (natDigits (nat i))"
    using natDigits_digits [of "nat i"] isDigit_not_special
    by (auto simp: list_all_iff)
  with False show ?thesis by (simp add: s decimalNumber_natDigits)
qed

lemma decimalString_100: "decimalString (Finite 100) = ''100''"
  by (simp add: decimalString_def natDigits.simps digitChar_def)

lemma decimalString_10000: "decimalString (Finite 10000) = ''10000''"
  by (simp add: decimalString_def natDigits.simps digitChar_def)

lemma decimalString_5: "decimalString (Finite 5) = ''5''"
  by (simp add: decimalString_def natDigits.simps digitChar_def)

lemma decimalString_500: "decimalString (Finite 500) = ''500''"
  by (simp add: decimalString_def natDigits.simps digitChar_def)

section \<open>The memo codec\<close>

text \<open>
  Claim C8. A memo that does not start with the tag \<open>TB\<close>, or whose number of
  colon-separated fields is not the expected one (6 for a listing, 4 for a whitelist
  request), decodes to absent. Nothing is thrown: both decoders are total functions into
  \<open>option\<close>, the registry loop goes on to the next action with its array and its set
  unchanged, and the reconciliation loop body returns its two arrays unchanged.
\<close>

theorem decode_absent_on_structural_mismatch:
  "(\<not> startsWith m ''TB'' \<or> length (split CHR '':'' m) \<noteq> 6
      \<longrightarrow> parseListingMemo Number m = None
        \<and> (ActionData.memo (data action) = Some m
            \<longrightarrow> getNodes_forEach Number (action # rest) nodes processedAddresses
                = getNodes_forEach Number rest nodes processedAddresses)) \<and>
   (\<not> startsWith m ''TB'' \<or> length (split CHR '':'' m) \<noteq> 4
      \<longrightarrow> parseWhitelistMemo Number m = None
        \<and> (ActionData.memo (data action) = Some m
            \<longrightarrow> getWhitelistRequests_body Number thornode this connectedAddress action acc
                = Inr acc))"
proof (intro conjI impI)
  assume "\<not> startsWith m ''TB'' \<or> length (split CHR '':'' m) \<noteq> 6"
  then show none: "parseListingMemo Number m = None"
    using tag_field_startsWith [of "CHR '':''" m "''TB''"]
    by (auto simp: parseListingMemo_def Let_def)
  assume "ActionData.memo (data action) = Some m"
  with none show "getNodes_forEach Number (action # rest) nodes processedAddresses
                = getNodes_forEach Number rest nodes processedAddresses"
    by simp
next
  assume "\<not> startsWith m ''TB'' \<or> length (split CHR '':'' m) \<noteq> 4"
  then show none: "parseWhitelistMemo Number m = None"
    using tag_field_startsWith [of "CHR '':''" m "''TB''"]
    by (auto simp: parseWhitelistMemo_def Let_def)
  assume "ActionData.memo (data action) = Some m"
  with none show "getWhitelistRequests_body Number thornode this connectedAddress action acc
                = Inr acc"
    by (simp add: getWhitelistRequests_body_def split: prod.splits)
qed

theorem decode_absent_on_structural_mismatch_witness:
  "\<not> startsWith ''hello:world'' ''TB''
   \<and> length (split CHR '':'' ''hello:world'') \<noteq> 6
   \<and> length (split CHR '':'' ''hello:world'') \<noteq> 4
   \<and> parseListingMemo decimalNumber ''hello:world'' = None
   \<and> parseWhitelistMemo decimalNumber ''hello:world'' = None
   \<and> getNodes_forEach decimalNumber
        [\<lparr>ThorBondAction.type = ''send'',
          data = \<lparr>ActionData.height = ''8'', ActionData.pools = [],
                  ActionData.status = ''success'', ActionData.metadata = \<lparr>send = None\<rparr>,
                  ActionData.memo = Some ''hello:world''\<rparr>,
          timestamp = Finite 1\<rparr>] [] {}
       = []
   \<and> getWhitelistRequests_body decimalNumber (\<lambda>a. Inl AxiosError) newEngine ''thor1user''
        \<lparr>ThorBondAction.type = ''send'',
          data = \<lparr>ActionData.height = ''8'', ActionData.pools = [],
                  ActionData.status = ''success'', ActionData.metadata = \<lparr>send = None\<rparr>,
                  ActionData.memo = Some ''hello:world''\<rparr>,
          timestamp = Finite 1\<rparr> ([], [])
       = Inr ([], [])"
proof -
  let ?a = "\<lparr>ThorBondAction.type = ''send'',
          data = \<lparr>ActionData.height = ''8'', ActionData.pools = [],
                  ActionData.status = ''success'', ActionData.metadata = \<lparr>send = None\<rparr>,
                  ActionData.memo = Some ''hello:world''\<rparr>,
          timestamp = Finite 1\<rparr>"
  have tag: "\<not> startsWith ''hello:world'' ''TB''"
    by (simp add: startsWith_def)
  have count: "length (split CHR '':'' ''hello:world'') \<noteq> 6"
    "length (split CHR '':'' ''hello:world'') \<noteq> 4"
    by simp_all
  have carried: "ActionData.memo (data ?a) = Some ''hello:world''"
    by simp
  note inst = decode_absent_on_structural_mismatch
    [of "''hello:world''" decimalNumber ?a "[]" "[]" "{}" "\<lambda>a. Inl AxiosError" newEngine
      "''thor1user''" "([], [])"]
  from inst tag carried
  have "parseListingMemo decimalNumber ''hello:world'' = None"
    "parseWhitelistMemo decimalNumber ''hello:world'' = None"
    "getNodes_forEach decimalNumber [?a] [] {} = getNodes_forEach decimalNumber [] [] {}"
    "getWhitelistRequests_body decimalNumber (\<lambda>a. Inl AxiosError) newEngine ''thor1user'' ?a
       ([], []) = Inr ([], [])"
    by blast+
  with tag count show ?thesis by simp
qed

text \<open>
  Claim C9. Take listing parameters and whitelist-request parameters that the encoders
  accept: addresses that start with \<open>thor1\<close> and contain no colon, \<open>minRune > 0\<close>,
  \<open>maxRune > minRune\<close>, \<open>0 \<le> feePercentage \<le> 100\<close>, \<open>amount > 0\<close>. Then each encoder returns
  a memo, and decoding that memo gives back exactly the parameters. The two conversions of
  the language enter through what they guarantee on the numbers printed: \<open>Number\<close> reads
  back what \<open>ToString\<close> printed, and the printed text has no colon.
\<close>

theorem encode_decode_roundtrip:
  assumes node: "startsWith (ListingMemo.nodeAddress p) ''thor1''"
      "CHR '':'' \<notin> set (ListingMemo.nodeAddress p)"
    and oper: "startsWith (operatorAddress p) ''thor1''" "CHR '':'' \<notin> set (operatorAddress p)"
    and ranges: "js_gt (minRune p) (Finite 0)" "js_gt (maxRune p) (minRune p)"
      "js_le (Finite 0) (ListingMemo.feePercentage p)"
      "js_le (ListingMemo.feePercentage p) (Finite 100)"
    and wnode: "startsWith (nodeAddress w) ''thor1''" "CHR '':'' \<notin> set (nodeAddress w)"
    and wuser: "startsWith (userAddress w) ''thor1''" "CHR '':'' \<notin> set (userAddress w)"
    and wamount: "js_gt (amount w) (Finite 0)"
    and platform: "\<forall>x \<in> {minRune p, maxRune p, ListingMemo.feePercentage p, amount w}.
                     Number (ToString x) = x \<and> CHR '':'' \<notin> set (ToString x)"
  shows "(\<exists>m. createListing ToString p = Inr m \<and> parseListingMemo Number m = Some p) \<and>
         (\<exists>m. createWhitelistRequest ToString w = Inr m \<and> parseWhitelistMemo Number m = Some w)"
proof
  let ?m = "''TB:'' @ ListingMemo.nodeAddress p @ '':'' @ operatorAddress p @ '':''
           @ ToString (minRune p) @ '':'' @ ToString (maxRune p) @ '':''
           @ ToString (ListingMemo.feePercentage p)"
  have enc: "createListing ToString p = Inr ?m"
    using node oper ranges
    by (simp add: createListing_def js_gt_def js_lt_not_le js_le_not_lt)
  have parts: "split CHR '':'' ?m
        = [''TB'', ListingMemo.nodeAddress p, operatorAddress p, ToString (minRune p),
           ToString (maxRune p), ToString (ListingMemo.feePercentage p)]"
    using node oper platform by (intro split_listing_memo) simp_all
  have "parseListingMemo Number ?m = Some p"
    unfolding parseListingMemo_def parts using platform by simp
  with enc show "\<exists>m. createListing ToString p = Inr m \<and> parseListingMemo Number m = Some p"
    by simp
next
  let ?m = "''TB:'' @ nodeAddress w @ '':'' @ userAddress w @ '':'' @ ToString (amount w)"
  have enc: "createWhitelistRequest ToString w = Inr ?m"
    using wnode wuser wamount
    by (simp add: createWhitelistRequest_def js_gt_def js_lt_not_le)
  have parts: "split CHR '':'' ?m = [''TB'', nodeAddress w, userAddress w, ToString (amount w)]"
    using wnode wuser platform by (intro split_whitelist_memo) simp_all
  have "parseWhitelistMemo Number ?m = Some w"
    unfolding parseWhitelistMemo_def parts using platform wnode wuser wamount
    by (simp add: not_gt_zero)
  with enc show "\<exists>m. createWhitelistRequest ToString w = Inr m \<and> parseWhitelistMemo Number m = Some w"
    by simp
qed

theorem encode_decode_roundtrip_witness:
  "createListing decimalString
     \<lparr>ListingMemo.nodeAddress = ''thor1node'', operatorAddress = ''thor1op'',
      minRune = Finite 100, maxRune = Finite 10000, ListingMemo.feePercentage = Finite 5\<rparr>
     = Inr ''TB:thor1node:thor1op:100:10000:5''
   \<and> parseListingMemo decimalNumber ''TB:thor1node:thor1op:100:10000:5''
     = Some \<lparr>ListingMemo.nodeAddress = ''thor1node'', operatorAddress = ''thor1op'',
             minRune = Finite 100, maxRune = Finite 10000, ListingMemo.feePercentage = Finite 5\<rparr>
   \<and> createWhitelistRequest decimalString
       \<lparr>nodeAddress = ''thor1node'', userAddress = ''thor1user'', amount = Finite 500\<rparr>
     = Inr ''TB:thor1node:thor1user:500''
   \<and> parseWhitelistMemo decimalNumber ''TB:thor1node:thor1user:500''
     = Some \<lparr>nodeAddress = ''thor1node'', userAddress = ''thor1user'', amount = Finite 500\<rparr>"
proof -
  let ?p = "\<lparr>ListingMemo.nodeAddress = ''thor1node'', operatorAddress = ''thor1op'',
      minRune = Finite 100, maxRune = Finite 10000, ListingMemo.feePercentage = Finite 5\<rparr>"
  let ?w = "\<lparr>nodeAddress = ''thor1node'', userAddress = ''thor1user'', amount = Finite 500\<rparr>"
  have platform: "\<forall>x \<in> {minRune ?p, maxRune ?p, ListingMemo.feePercentage ?p, amount ?w}.
      decimalNumber (decimalString x) = x \<and> CHR '':'' \<notin> set (decimalString x)"
    using decimal_roundtrip [of 100] decimal_roundtrip [of 10000] decimal_roundtrip [of 5]
      decimal_roundtrip [of 500]
    by simp
  have rt: "(\<exists>m. createListing decimalString ?p = Inr m
                \<and> parseListingMemo decimalNumber m = Some ?p) \<and>
            (\<exists>m. createWhitelistRequest decimalString ?w = Inr m
                \<and> parseWhitelistMemo decimalNumber m = Some ?w)"
    by (rule encode_decode_roundtrip [OF _ _ _ _ _ _ _ _ _ _ _ _ _ platform])
      (simp_all add: startsWith_def js_gt_def)
  have e1: "createListing decimalString ?p = Inr ''TB:thor1node:thor1op:100:10000:5''"
    by (simp add: createListing_def startsWith_def js_gt_def
        decimalString_100 decimalString_10000 decimalString_5)
  have e2: "createWhitelistRequest decimalString ?w = Inr ''TB:thor1node:thor1user:500''"
    by (simp add: createWhitelistRequest_def startsWith_def decimalString_500)
  from rt e1 e2 show ?thesis by simp
qed

section \<open>The node registry\<close>

lemma getNodes_forEach_Cons:
  "getNodes_forEach Number (a # rest) nodes seen =
     (case listingOf Number a of
        None \<Rightarrow> getNodes_forEach Number rest nodes seen
      | Some lm \<Rightarrow>
          if ListingMemo.nodeAddress lm \<in> seen then getNodes_forEach Number rest nodes seen
          else getNodes_forEach Number rest (nodes @ [nodeOfListing a lm])
                 (insert (ListingMemo.nodeAddress lm) seen))"
  by (simp add: listingOf_def nodeOfListing_def split: option.splits)

lemma address_nodeOfListing [simp]: "address (nodeOfListing a lm) = ListingMemo.nodeAddress lm"
  by (simp add: nodeOfListing_def)

lemma getNodes_forEach_extends:
  "\<exists>more. getNodes_forEach Number xs nodes seen = nodes @ more"
proof (induction xs arbitrary: nodes seen)
  case Nil
  show ?case by simp
next
  case (Cons a xs)
  show ?case
  proof (cases "listingOf Number a")
    case None
    with Cons show ?thesis by (simp only: getNodes_forEach_Cons option.case)
  next
    case (Some lm)
    show ?thesis
    proof (cases "ListingMemo.nodeAddress lm \<in> seen")
      case True
      with Some Cons show ?thesis by (simp only: getNodes_forEach_Cons option.case if_True)
    next
      case False
      obtain more where "getNodes_forEach Number xs (nodes @ [nodeOfListing a lm])
          (insert (ListingMemo.nodeAddress lm) seen) = (nodes @ [nodeOfListing a lm]) @ more"
        using Cons by blast
      with Some False show ?thesis
        by (simp only: getNodes_forEach_Cons option.case if_False) simp
    qed
  qed
qed

lemma getNodes_forEach_distinct:
  assumes "seen = address ` set nodes" "distinct (map address nodes)"
  shows "distinct (map address (getNodes_forEach Number xs nodes seen))"
  using assms
proof (induction xs arbitrary: nodes seen)
  case Nil
  then show ?case by simp
next
  case (Cons a xs)
  show ?case
  proof (cases "listingOf Number a")
    case None
    with Cons show ?thesis by (simp only: getNodes_forEach_Cons option.case)
  next
    case (Some lm)
    show ?thesis
    proof (cases "ListingMemo.nodeAddress lm \<in> seen")
      case True
      with Some Cons show ?thesis by (simp only: getNodes_forEach_Cons option.case if_True)
    next
      case False
      have "distinct (map address (getNodes_forEach Number xs (nodes @ [nodeOfListing a lm])
          (insert (ListingMemo.nodeAddress lm) seen)))"
        using Cons.prems False by (intro Cons.IH) auto
      with Some False show ?thesis
        by (simp only: getNodes_forEach_Cons option.case if_False)
    qed
  qed
qed

lemma getNodes_forEach_first:
  assumes "listingOf Number a = Some lm"
    and "\<forall>b\<in>set pre. \<forall>lm'. listingOf Number b = Some lm'
           \<longrightarrow> ListingMemo.nodeAddress lm' \<noteq> ListingMemo.nodeAddress lm"
    and "ListingMemo.nodeAddress lm \<notin> seen"
  shows "nodeOfListing a lm \<in> set (getNodes_forEach Number (pre @ a # post) nodes seen)"
  using assms
proof (induction pre arbitrary: nodes seen)
  case Nil
  obtain more where "getNodes_forEach Number post (nodes @ [nodeOfListing a lm])
      (insert (ListingMemo.nodeAddress lm) seen) = (nodes @ [nodeOfListing a lm]) @ more"
    using getNodes_forEach_extends by blast
  with Nil show ?case
    by (simp add: getNodes_forEach_Cons del: getNodes_forEach.simps)
next
  case (Cons b pre)
  show ?case
  proof (cases "listingOf Number b")
    case None
    with Cons show ?thesis
      by (simp add: getNodes_forEach_Cons del: getNodes_forEach.simps)
  next
    case (Some lm')
    with Cons.prems have ne: "ListingMemo.nodeAddress lm' \<noteq> ListingMemo.nodeAddress lm"
      by simp
    have "nodeOfListing a lm \<in> set (getNodes_forEach Number (pre @ a # post) ns sn)"
      if "ListingMemo.nodeAddress lm \<notin> sn" for ns sn
      using Cons.prems that by (intro Cons.IH) simp_all
    with Some ne Cons.prems(3) show ?thesis
      by (simp add: getNodes_forEach_Cons del: getNodes_forEach.simps)
  qed
qed

lemma getNodes_forEach_covers:
  assumes "a \<in> set xs" "listingOf Number a = Some lm" "seen = address ` set nodes"
  shows "ListingMemo.nodeAddress lm \<in> address ` set (getNodes_forEach Number xs nodes seen)"
  using assms
proof (induction xs arbitrary: nodes seen)
  case Nil
  then show ?case by simp
next
  case (Cons b xs)
  have keep: "address ` set ns \<subseteq> address ` set (getNodes_forEach Number xs ns sn)" for ns sn
    using getNodes_forEach_extends [of Number xs ns sn] by auto
  show ?case
  proof (cases "listingOf Number b")
    case None
    with Cons show ?thesis
      by (auto simp add: getNodes_forEach_Cons simp del: getNodes_forEach.simps)
  next
    case (Some lm')
    show ?thesis
    proof (cases "ListingMemo.nodeAddress lm' \<in> seen")
      case True
      show ?thesis
      proof (cases "a = b")
        case True
        with Some Cons.prems have "lm' = lm" by simp
        with \<open>ListingMemo.nodeAddress lm' \<in> seen\<close> Cons.prems(3) keep [of nodes seen] Some
        show ?thesis
          by (auto simp add: getNodes_forEach_Cons simp del: getNodes_forEach.simps)
      next
        case False
        with Cons.prems have "a \<in> set xs" by simp
        from Cons.IH [OF this Cons.prems(2) Cons.prems(3)] Some True show ?thesis
          by (simp add: getNodes_forEach_Cons del: getNodes_forEach.simps)
      qed
    next
      case notseen: False
      let ?ns = "nodes @ [nodeOfListing b lm']"
      let ?sn = "insert (ListingMemo.nodeAddress lm') seen"
      have inv: "?sn = address ` set ?ns" using Cons.prems(3) by auto
      show ?thesis
      proof (cases "a = b")
        case True
        with Some Cons.prems have "lm' = lm" by simp
        then have "ListingMemo.nodeAddress lm \<in> address ` set ?ns" by simp
        with keep [of ?ns ?sn] Some notseen show ?thesis
          by (auto simp add: getNodes_forEach_Cons simp del: getNodes_forEach.simps)
      next
        case False
        with Cons.prems have "a \<in> set xs" by simp
        from Cons.IH [OF this Cons.prems(2) inv] Some notseen show ?thesis
          by (simp add: getNodes_forEach_Cons del: getNodes_forEach.simps)
      qed
    qed
  qed
qed

lemma listingOf_six_fields:
  assumes "ActionData.memo (data a) = Some m" "length (split CHR '':'' m) = 6"
    "split CHR '':'' m ! 0 = ''TB''"
  shows "listingOf Number a =
         Some \<lparr>ListingMemo.nodeAddress = split CHR '':'' m ! 1,
               operatorAddress = split CHR '':'' m ! 2,
               minRune = Number (split CHR '':'' m ! 3),
               maxRune = Number (split CHR '':'' m ! 4),
               ListingMemo.feePercentage = Number (split CHR '':'' m ! 5)\<rparr>"
proof -
  from assms(2) have "m \<noteq> []" by auto
  with assms show ?thesis by (simp add: listingOf_def parseListingMemo_def Let_def)
qed

text \<open>
  Claim C1, as amended. \<open>parseListingMemo\<close> checks the number of fields and the tag and
  nothing else: it returns absent exactly when the memo has not six fields or its first field
  is not \<open>TB\<close>. A memo with six fields and the tag decodes to its fields, the three numeric
  ones converted by \<open>Number\<close> whatever their values, and once the engine is initialized the
  registry holds a Node for the node address of every cached action with such a memo.
\<close>

theorem parseListingMemo_structural_only:
  "(parseListingMemo Number m = None
      \<longleftrightarrow> length (split CHR '':'' m) \<noteq> 6 \<or> split CHR '':'' m ! 0 \<noteq> ''TB'')
   \<and> (length (split CHR '':'' m) = 6 \<and> split CHR '':'' m ! 0 = ''TB''
      \<longrightarrow> parseListingMemo Number m =
          Some \<lparr>ListingMemo.nodeAddress = split CHR '':'' m ! 1,
                operatorAddress = split CHR '':'' m ! 2,
                minRune = Number (split CHR '':'' m ! 3),
                maxRune = Number (split CHR '':'' m ! 4),
                ListingMemo.feePercentage = Number (split CHR '':'' m ! 5)\<rparr>)
   \<and> (isInitialized this \<and> a \<in> set (ThorBondEngine.actions this)
        \<and> ActionData.memo (data a) = Some m
        \<and> length (split CHR '':'' m) = 6 \<and> split CHR '':'' m ! 0 = ''TB''
      \<longrightarrow> (\<exists>nodes. getNodes Number this = Inr nodes
             \<and> split CHR '':'' m ! 1 \<in> address ` set nodes))"
proof (intro conjI impI)
  show "parseListingMemo Number m = None
      \<longleftrightarrow> length (split CHR '':'' m) \<noteq> 6 \<or> split CHR '':'' m ! 0 \<noteq> ''TB''"
    by (simp add: parseListingMemo_def Let_def)
next
  assume "length (split CHR '':'' m) = 6 \<and> split CHR '':'' m ! 0 = ''TB''"
  then show "parseListingMemo Number m =
          Some \<lparr>ListingMemo.nodeAddress = split CHR '':'' m ! 1,
                operatorAddress = split CHR '':'' m ! 2,
                minRune = Number (split CHR '':'' m ! 3),
                maxRune = Number (split CHR '':'' m ! 4),
                ListingMemo.feePercentage = Number (split CHR '':'' m ! 5)\<rparr>"
    by (simp add: parseListingMemo_def Let_def)
next
  assume h: "isInitialized this \<and> a \<in> set (ThorBondEngine.actions this)
        \<and> ActionData.memo (data a) = Some m
        \<and> length (split CHR '':'' m) = 6 \<and> split CHR '':'' m ! 0 = ''TB''"
  then have l: "listingOf Number a =
         Some \<lparr>ListingMemo.nodeAddress = split CHR '':'' m ! 1,
               operatorAddress = split CHR '':'' m ! 2,
               minRune = Number (split CHR '':'' m ! 3),
               maxRune = Number (split CHR '':'' m ! 4),
               ListingMemo.feePercentage = Number (split CHR '':'' m ! 5)\<rparr>"
    by (intro listingOf_six_fields) simp_all
  from h have "a \<in> set (ThorBondEngine.actions this)" by simp
  from getNodes_forEach_covers [OF this l, of "{}" "[]"]
  have "split CHR '':'' m ! 1
        \<in> address ` set (getNodes_forEach Number (ThorBondEngine.actions this) [] {})"
    by simp
  with h show "\<exists>nodes. getNodes Number this = Inr nodes
             \<and> split CHR '':'' m ! 1 \<in> address ` set nodes"
    by (simp add: getNodes_def)
qed

text \<open>The claim as stated fails on a memo whose three numeric fields are all out of range:
  it decodes, and \<open>getNodes\<close> materializes a Node from it.\<close>

theorem listing_ranges_counterexample:
  "js_lt (Finite (- 5)) (Finite 0)
   \<and> js_le (Finite (- 7)) (Finite (- 5))
   \<and> js_gt (Finite 200) (Finite 100)
   \<and> parseListingMemo decimalNumber ''TB:thor1node:thor1op:-5:-7:200''
       = Some \<lparr>ListingMemo.nodeAddress = ''thor1node'', operatorAddress = ''thor1op'',
               minRune = Finite (- 5), maxRune = Finite (- 7),
               ListingMemo.feePercentage = Finite 200\<rparr>
   \<and> getNodes decimalNumber
        \<lparr>ThorBondEngine.actions =
           [\<lparr>ThorBondAction.type = ''send'',
             data = \<lparr>ActionData.height = ''1'', ActionData.pools = [],
                     ActionData.status = ''success'',
                     ActionData.metadata = \<lparr>send = None\<rparr>,
                     ActionData.memo = Some ''TB:thor1node:thor1op:-5:-7:200''\<rparr>,
             timestamp = Finite 1\<rparr>],
         isInitialized = True\<rparr>
       = Inr [\<lparr>Node.operator = ''thor1op'', address = ''thor1node'',
               bondingCapacity = Finite (- 7), minimumBond = Finite (- 5),
               Node.feePercentage = Finite 200, Node.createdAt = DateOfNanos (Finite 1)\<rparr>]"
  by (simp add: js_gt_def getNodes_def parseListingMemo_def decimalNumber_def isDigit_def
      digitsValue_def)

theorem parseListingMemo_structural_only_witness:
  "length (split CHR '':'' ''TB:thor1node:thor1op:-5:-7:200'') = 6
   \<and> split CHR '':'' ''TB:thor1node:thor1op:-5:-7:200'' ! 0 = ''TB''
   \<and> parseListingMemo decimalNumber ''TB:thor1node:thor1op:-5:-7:200''
       = Some \<lparr>ListingMemo.nodeAddress = ''thor1node'', operatorAddress = ''thor1op'',
               minRune = Finite (- 5), maxRune = Finite (- 7),
               ListingMemo.feePercentage = Finite 200\<rparr>
   \<and> (\<exists>nodes. getNodes decimalNumber
        \<lparr>ThorBondEngine.actions =
           [\<lparr>ThorBondAction.type = ''send'',
             data = \<lparr>ActionData.height = ''1'', ActionData.pools = [],
                     ActionData.status = ''success'',
                     ActionData.metadata = \<lparr>send = None\<rparr>,
                     ActionData.memo = Some ''TB:thor1node:thor1op:-5:-7:200''\<rparr>,
             timestamp = Finite 1\<rparr>],
         isInitialized = True\<rparr> = Inr nodes
        \<and> ''thor1node'' \<in> address ` set nodes)"
proof -
  let ?m = "''TB:thor1node:thor1op:-5:-7:200''"
  let ?a = "\<lparr>ThorBondAction.type = ''send'',
             data = \<lparr>ActionData.height = ''1'', ActionData.pools = [],
                     ActionData.status = ''success'',
                     ActionData.metadata = \<lparr>send = None\<rparr>,
                     ActionData.memo = Some ?m\<rparr>,
             timestamp = Finite 1\<rparr>"
  let ?eng = "\<lparr>ThorBondEngine.actions = [?a], isInitialized = True\<rparr>"
  have shape: "length (split CHR '':'' ?m) = 6 \<and> split CHR '':'' ?m ! 0 = ''TB''"
    by simp
  have fields: "split CHR '':'' ?m = [''TB'', ''thor1node'', ''thor1op'', ''-5'', ''-7'', ''200'']"
    by simp
  have nums: "decimalNumber ''-5'' = Finite (- 5)" "decimalNumber ''-7'' = Finite (- 7)"
    "decimalNumber ''200'' = Finite 200"
    by (simp_all add: decimalNumber_def isDigit_def digitsValue_def)
  have cached: "isInitialized ?eng \<and> ?a \<in> set (ThorBondEngine.actions ?eng)
        \<and> ActionData.memo (data ?a) = Some ?m
        \<and> length (split CHR '':'' ?m) = 6 \<and> split CHR '':'' ?m ! 0 = ''TB''"
    by simp
  note inst = parseListingMemo_structural_only [of decimalNumber ?m ?eng ?a]
  from inst shape have "parseListingMemo decimalNumber ?m =
          Some \<lparr>ListingMemo.nodeAddress = split CHR '':'' ?m ! 1,
                operatorAddress = split CHR '':'' ?m ! 2,
                minRune = decimalNumber (split CHR '':'' ?m ! 3),
                maxRune = decimalNumber (split CHR '':'' ?m ! 4),
                ListingMemo.feePercentage = decimalNumber (split CHR '':'' ?m ! 5)\<rparr>"
    by blast
  then have dec: "parseListingMemo decimalNumber ?m
       = Some \<lparr>ListingMemo.nodeAddress = ''thor1node'', operatorAddress = ''thor1op'',
               minRune = Finite (- 5), maxRune = Finite (- 7),
               ListingMemo.feePercentage = Finite 200\<rparr>"
    unfolding fields by (simp add: nums)
  from inst cached have "\<exists>nodes. getNodes decimalNumber ?eng = Inr nodes
             \<and> split CHR '':'' ?m ! 1 \<in> address ` set nodes"
    by blast
  then have reg: "\<exists>nodes. getNodes decimalNumber ?eng = Inr nodes
             \<and> ''thor1node'' \<in> address ` set nodes"
    unfolding fields by simp
  from shape dec reg show ?thesis by blast
qed

text \<open>
  Claim C2. The registry returned by \<open>getNodes\<close> has at most one Node per node address.
  When an action carries a listing and no action before it in the cache carries a listing
  for the same node address, the registry contains the Node built from that action (its
  operator, minimum, capacity, fee and timestamp), and that Node is the only one with this
  address: later listings for the address leave no trace.
\<close>

theorem getNodes_first_listing_wins:
  assumes "getNodes Number this = Inr nodes"
  shows "distinct (map address nodes)
    \<and> (\<forall>pre a post lm.
          ThorBondEngine.actions this = pre @ a # post
          \<and> listingOf Number a = Some lm
          \<and> (\<forall>b\<in>set pre. \<forall>lm'. listingOf Number b = Some lm'
                \<longrightarrow> ListingMemo.nodeAddress lm' \<noteq> ListingMemo.nodeAddress lm)
          \<longrightarrow> nodeOfListing a lm \<in> set nodes
              \<and> (\<forall>n\<in>set nodes. address n = ListingMemo.nodeAddress lm
                    \<longrightarrow> n = nodeOfListing a lm))"
proof -
  from assms have nodes: "nodes = getNodes_forEach Number (ThorBondEngine.actions this) [] {}"
    by (auto simp: getNodes_def split: if_splits)
  have d: "distinct (map address nodes)"
    unfolding nodes by (rule getNodes_forEach_distinct) simp_all
  have "nodeOfListing a lm \<in> set nodes
        \<and> (\<forall>n\<in>set nodes. address n = ListingMemo.nodeAddress lm \<longrightarrow> n = nodeOfListing a lm)"
    if h: "ThorBondEngine.actions this = pre @ a # post" "listingOf Number a = Some lm"
      "\<forall>b\<in>set pre. \<forall>lm'. listingOf Number b = Some lm'
          \<longrightarrow> ListingMemo.nodeAddress lm' \<noteq> ListingMemo.nodeAddress lm"
    for pre a post lm
  proof -
    have m: "nodeOfListing a lm \<in> set nodes"
      unfolding nodes h(1) using h(2,3) by (rule getNodes_forEach_first) simp
    have "n = nodeOfListing a lm"
      if "n \<in> set nodes" "address n = ListingMemo.nodeAddress lm" for n
    proof -
      from d have "inj_on address (set nodes)" by (simp add: distinct_map)
      moreover have "address n = address (nodeOfListing a lm)" using that(2) by simp
      ultimately show ?thesis using that(1) m by (rule inj_onD)
    qed
    with m show ?thesis by blast
  qed
  with d show ?thesis by blast
qed

theorem getNodes_first_listing_wins_witness:
  "getNodes decimalNumber
     \<lparr>ThorBondEngine.actions =
        [\<lparr>ThorBondAction.type = ''send'',
          data = \<lparr>ActionData.height = ''8'', ActionData.pools = [],
                  ActionData.status = ''success'', ActionData.metadata = \<lparr>send = None\<rparr>,
                  ActionData.memo = Some ''TB:thor1x:thor1opa:100:10000:5''\<rparr>,
          timestamp = Finite 1\<rparr>,
         \<lparr>ThorBondAction.type = ''send'',
          data = \<lparr>ActionData.height = ''9'', ActionData.pools = [],
                  ActionData.status = ''success'', ActionData.metadata = \<lparr>send = None\<rparr>,
                  ActionData.memo = Some ''TB:thor1x:thor1opb:200:20000:7''\<rparr>,
          timestamp = Finite 2\<rparr>],
      isInitialized = True\<rparr>
   = Inr [\<lparr>Node.operator = ''thor1opa'', address = ''thor1x'',
           bondingCapacity = Finite 10000, minimumBond = Finite 100,
           Node.feePercentage = Finite 5, Node.createdAt = DateOfNanos (Finite 1)\<rparr>]
   \<and> distinct (map address
        [\<lparr>Node.operator = ''thor1opa'', address = ''thor1x'',
           bondingCapacity = Finite 10000, minimumBond = Finite 100,
           Node.feePercentage = Finite 5, Node.createdAt = DateOfNanos (Finite 1)\<rparr>])
   \<and> nodeOfListing
        \<lparr>ThorBondAction.type = ''send'',
          data = \<lparr>ActionData.height = ''8'', ActionData.pools = [],
                  ActionData.status = ''success'', ActionData.metadata = \<lparr>send = None\<rparr>,
                  ActionData.memo = Some ''TB:thor1x:thor1opa:100:10000:5''\<rparr>,
          timestamp = Finite 1\<rparr>
        \<lparr>ListingMemo.nodeAddress = ''thor1x'', operatorAddress = ''thor1opa'',
         minRune = Finite 100, maxRune = Finite 10000, ListingMemo.feePercentage = Finite 5\<rparr>
      \<in> set [\<lparr>Node.operator = ''thor1opa'', address = ''thor1x'',
           bondingCapacity = Finite 10000, minimumBond = Finite 100,
           Node.feePercentage = Finite 5, Node.createdAt = DateOfNanos (Finite 1)\<rparr>]"
proof -
  let ?A = "\<lparr>ThorBondAction.type = ''send'',
          data = \<lparr>ActionData.height = ''8'', ActionData.pools = [],
                  ActionData.status = ''success'', ActionData.metadata = \<lparr>send = None\<rparr>,
                  ActionData.memo = Some ''TB:thor1x:thor1opa:100:10000:5''\<rparr>,
          timestamp = Finite 1\<rparr>"
  let ?B = "\<lparr>ThorBondAction.type = ''send'',
          data = \<lparr>ActionData.height = ''9'', ActionData.pools = [],
                  ActionData.status = ''success'', ActionData.metadata = \<lparr>send = None\<rparr>,
                  ActionData.memo = Some ''TB:thor1x:thor1opb:200:20000:7''\<rparr>,
          timestamp = Finite 2\<rparr>"
  let ?eng = "\<lparr>ThorBondEngine.actions = [?A, ?B], isInitialized = True\<rparr>"
  let ?lm = "\<lparr>ListingMemo.nodeAddress = ''thor1x'', operatorAddress = ''thor1opa'',
         minRune = Finite 100, maxRune = Finite 10000, ListingMemo.feePercentage = Finite 5\<rparr>"
  let ?n = "\<lparr>Node.operator = ''thor1opa'', address = ''thor1x'',
           bondingCapacity = Finite 10000, minimumBond = Finite 100,
           Node.feePercentage = Finite 5, Node.createdAt = DateOfNanos (Finite 1)\<rparr>"
  have run: "getNodes decimalNumber ?eng = Inr [?n]"
    by (simp add: getNodes_def parseListingMemo_def decimalNumber_def isDigit_def
        digitsValue_def)
  have lst: "listingOf decimalNumber ?A = Some ?lm"
    by (simp add: listingOf_def parseListingMemo_def decimalNumber_def isDigit_def
        digitsValue_def)
  have cache: "ThorBondEngine.actions ?eng = [] @ ?A # [?B]"
    by simp
  from getNodes_first_listing_wins [OF run]
  have d: "distinct (map address [?n])"
    and first: "\<And>pre a post lm. ThorBondEngine.actions ?eng = pre @ a # post
          \<and> listingOf decimalNumber a = Some lm
          \<and> (\<forall>b\<in>set pre. \<forall>lm'. listingOf decimalNumber b = Some lm'
                \<longrightarrow> ListingMemo.nodeAddress lm' \<noteq> ListingMemo.nodeAddress lm)
          \<Longrightarrow> nodeOfListing a lm \<in> set [?n]"
    by blast+
  have "nodeOfListing ?A ?lm \<in> set [?n]"
    by (rule first [of "[]" ?A "[?B]" ?lm]) (use cache lst in simp)
  with run d show ?thesis by blast
qed

section \<open>The bond-state oracle\<close>

lemma getBondInfoForUser_errors:
  assumes "getBondInfoForUser Number thornode n u = Inl e"
  shows "e = Error ''Invalid THORChain address'' \<or> e = Error ''Failed to retrieve bond info''"
  using assms
  by (auto simp: getBondInfoForUser_def Let_def split: if_splits sum.splits option.splits)

lemma getBondInfoForUser_valid_addresses:
  assumes "startsWith n ''thor1''" "startsWith u ''thor1''"
  shows "getBondInfoForUser Number thornode n u =
         (case thornode n of
            Inl e \<Rightarrow> Inl (Error ''Failed to retrieve bond info'')
          | Inr response_data \<Rightarrow>
              (case find (\<lambda>bp. bond_address bp = u) (bondProviders response_data) of
                 Some p \<Rightarrow> Inr \<lparr>isBondProvider = True, BondInfo.bond = Number (BondProvider.bond p)\<rparr>
               | None \<Rightarrow> Inr \<lparr>isBondProvider = False, BondInfo.bond = Finite 0\<rparr>))"
  using assms by (simp add: getBondInfoForUser_def Let_def split: sum.splits)

lemma find_first_match:
  assumes "xs = pre @ p # post" "P p" "\<forall>q\<in>set pre. \<not> P q"
  shows "find P xs = Some p"
  unfolding assms(1) using assms(2,3) by (induction pre) auto

text \<open>
  Claim C7. For valid addresses and a successful answer of the node-state service,
  \<open>getBondInfoForUser\<close> returns \<open>{isBondProvider: false, bond: 0}\<close> when the provider list is
  missing at any level of the answer, and when no entry of the list has the user's address;
  when an entry has it, the result is \<open>{isBondProvider: true, bond}\<close> with the bond of the first
  such entry, converted by \<open>Number\<close>. The list read is the \<open>providers\<close> array when all levels
  are present.
\<close>

theorem getBondInfoForUser_lookup:
  assumes "startsWith n ''thor1''" "startsWith u ''thor1''" "thornode n = Inr response_data"
  shows "((response_data = None
           \<or> (\<exists>d. response_data = Some d
                \<and> (bond_providers d = None
                    \<or> (\<exists>bp. bond_providers d = Some bp \<and> providers bp = None))))
          \<longrightarrow> getBondInfoForUser Number thornode n u
              = Inr \<lparr>isBondProvider = False, BondInfo.bond = Finite 0\<rparr>)
    \<and> (\<forall>d bp ps. response_data = Some d \<and> bond_providers d = Some bp \<and> providers bp = Some ps
          \<longrightarrow> bondProviders response_data = ps)
    \<and> ((\<forall>q\<in>set (bondProviders response_data). bond_address q \<noteq> u)
          \<longrightarrow> getBondInfoForUser Number thornode n u
              = Inr \<lparr>isBondProvider = False, BondInfo.bond = Finite 0\<rparr>)
    \<and> (\<forall>pre p post. bondProviders response_data = pre @ p # post \<and> bond_address p = u
            \<and> (\<forall>q\<in>set pre. bond_address q \<noteq> u)
          \<longrightarrow> getBondInfoForUser Number thornode n u
              = Inr \<lparr>isBondProvider = True, BondInfo.bond = Number (BondProvider.bond p)\<rparr>)"
proof (intro conjI allI impI)
  note eq = getBondInfoForUser_valid_addresses [OF assms(1,2), of Number thornode]
  {
    assume "response_data = None
           \<or> (\<exists>d. response_data = Some d
                \<and> (bond_providers d = None
                    \<or> (\<exists>bp. bond_providers d = Some bp \<and> providers bp = None)))"
    then have "bondProviders response_data = []"
      by (auto simp: bondProviders_def)
    then show "getBondInfoForUser Number thornode n u
              = Inr \<lparr>isBondProvider = False, BondInfo.bond = Finite 0\<rparr>"
      using assms(3) by (simp add: eq)
  next
    fix d bp ps
    assume "response_data = Some d \<and> bond_providers d = Some bp \<and> providers bp = Some ps"
    then show "bondProviders response_data = ps"
      by (simp add: bondProviders_def)
  next
    assume "\<forall>q\<in>set (bondProviders response_data). bond_address q \<noteq> u"
    then have "find (\<lambda>bp. bond_address bp = u) (bondProviders response_data) = None"
      by (simp add: find_None_iff)
    then show "getBondInfoForUser Number thornode n u
              = Inr \<lparr>isBondProvider = False, BondInfo.bond = Finite 0\<rparr>"
      using assms(3) by (simp add: eq)
  next
    fix pre p post
    assume h: "bondProviders response_data = pre @ p # post \<and> bond_address p = u
            \<and> (\<forall>q\<in>set pre. bond_address q \<noteq> u)"
    have "find (\<lambda>bp. bond_address bp = u) (bondProviders response_data) = Some p"
      by (rule find_first_match [of _ pre p post]) (use h in simp_all)
    then show "getBondInfoForUser Number thornode n u
              = Inr \<lparr>isBondProvider = True, BondInfo.bond = Number (BondProvider.bond p)\<rparr>"
      using assms(3) by (simp add: eq)
  }
qed

theorem getBondInfoForUser_lookup_witness:
  "getBondInfoForUser decimalNumber
     (\<lambda>a. Inr (Some \<lparr>bond_providers = Some \<lparr>providers =
        Some [\<lparr>bond_address = ''thor1other'', BondProvider.bond = ''7''\<rparr>,
              \<lparr>bond_address = ''thor1user'', BondProvider.bond = ''50''\<rparr>]\<rparr>\<rparr>))
     ''thor1node'' ''thor1user''
   = Inr \<lparr>isBondProvider = True, BondInfo.bond = Finite 50\<rparr>
   \<and> getBondInfoForUser decimalNumber (\<lambda>a. Inr (Some \<lparr>bond_providers = None\<rparr>))
       ''thor1node'' ''thor1user''
   = Inr \<lparr>isBondProvider = False, BondInfo.bond = Finite 0\<rparr>"
proof -
  let ?other = "\<lparr>bond_address = ''thor1other'', BondProvider.bond = ''7''\<rparr>"
  let ?mine = "\<lparr>bond_address = ''thor1user'', BondProvider.bond = ''50''\<rparr>"
  let ?full = "Some \<lparr>bond_providers = Some \<lparr>providers = Some [?other, ?mine]\<rparr>\<rparr>"
  let ?none = "Some \<lparr>bond_providers = None\<rparr>"
  have addr: "startsWith ''thor1node'' ''thor1''" "startsWith ''thor1user'' ''thor1''"
    by (simp_all add: startsWith_def)
  have num: "decimalNumber ''50'' = Finite 50"
    by (simp add: decimalNumber_def isDigit_def digitsValue_def)
  have lst: "bondProviders ?full = [?other] @ ?mine # [] \<and> bond_address ?mine = ''thor1user''
      \<and> (\<forall>q\<in>set [?other]. bond_address q \<noteq> ''thor1user'')"
    by (simp add: bondProviders_def)
  from getBondInfoForUser_lookup [OF addr, of "\<lambda>a. Inr ?full" ?full decimalNumber] lst
  have "getBondInfoForUser decimalNumber (\<lambda>a. Inr ?full) ''thor1node'' ''thor1user''
      = Inr \<lparr>isBondProvider = True, BondInfo.bond = decimalNumber (BondProvider.bond ?mine)\<rparr>"
    by blast
  then have found: "getBondInfoForUser decimalNumber (\<lambda>a. Inr ?full) ''thor1node'' ''thor1user''
      = Inr \<lparr>isBondProvider = True, BondInfo.bond = Finite 50\<rparr>"
    by (simp add: num)
  have missing: "?none = None
           \<or> (\<exists>d. ?none = Some d
                \<and> (bond_providers d = None
                    \<or> (\<exists>bp. bond_providers d = Some bp \<and> providers bp = None)))"
    by simp
  from getBondInfoForUser_lookup [OF addr, of "\<lambda>a. Inr ?none" ?none decimalNumber] missing
  have "getBondInfoForUser decimalNumber (\<lambda>a. Inr ?none) ''thor1node'' ''thor1user''
      = Inr \<lparr>isBondProvider = False, BondInfo.bond = Finite 0\<rparr>"
    by blast
  with found show ?thesis by simp
qed

section \<open>Reconciliation\<close>

lemma requestOf_valid:
  assumes "requestOf Number a = Some request"
  shows "startsWith (nodeAddress request) ''thor1''" "startsWith (userAddress request) ''thor1''"
    "js_gt (amount request) (Finite 0)"
  using assms
  by (auto simp: requestOf_def parseWhitelistMemo_def Let_def not_gt_zero
      split: option.splits if_splits)

lemma find_address:
  assumes "find (\<lambda>n. address n = x) nodes = Some nd"
  shows "address nd = x" "nd \<in> set nodes"
  using assms by (auto simp: find_Some_iff)

lemma body_cases:
  "getWhitelistRequests_body Number thornode this viewer a (ru, ro) =
     (case requestOf Number a of
        None \<Rightarrow> Inr (ru, ro)
      | Some request \<Rightarrow>
          (case getNodes Number this of
             Inl e \<Rightarrow> Inl e
           | Inr nodes \<Rightarrow>
               (case find (\<lambda>n. address n = nodeAddress request) nodes of
                  None \<Rightarrow> Inl (Error ''Node not found'')
                | Some nd \<Rightarrow>
                    if userAddress request = viewer \<or> Node.operator nd = viewer
                    then (case getBondInfoForUser Number thornode (address nd)
                                 (userAddress request) of
                            Inl e \<Rightarrow> Inl e
                          | Inr bondInfo \<Rightarrow>
                              Inr (if userAddress request = viewer
                                   then ru @ [\<lparr>node = nd, walletAddress = userAddress request,
                                              intendedBondAmount = amount request,
                                              WhitelistRequest.status = calcStatus bondInfo,
                                              WhitelistRequest.createdAt =
                                                DateOfNanos (timestamp a)\<rparr>]
                                   else ru,
                                   if Node.operator nd = viewer
                                   then ro @ [\<lparr>node = nd, walletAddress = userAddress request,
                                              intendedBondAmount = amount request,
                                              WhitelistRequest.status = calcStatus bondInfo,
                                              WhitelistRequest.createdAt =
                                                DateOfNanos (timestamp a)\<rparr>]
                                   else ro))
                    else Inr (ru, ro))))"
  by (simp add: getWhitelistRequests_body_def requestOf_def Let_def
      split: option.splits sum.splits)

lemma body_visible_oracle:
  assumes "requestOf Number a = Some request"
    and "find (\<lambda>n. address n = nodeAddress request) nodes = Some nd"
  shows "getBondInfoForUser Number thornode (address nd) (userAddress request) =
         (case thornode (address nd) of
            Inl e \<Rightarrow> Inl (Error ''Failed to retrieve bond info'')
          | Inr response_data \<Rightarrow>
              (case find (\<lambda>bp. bond_address bp = userAddress request)
                      (bondProviders response_data) of
                 Some p \<Rightarrow> Inr \<lparr>isBondProvider = True, BondInfo.bond = Number (BondProvider.bond p)\<rparr>
               | None \<Rightarrow> Inr \<lparr>isBondProvider = False, BondInfo.bond = Finite 0\<rparr>))"
proof -
  have "startsWith (address nd) ''thor1''"
    using requestOf_valid(1) [OF assms(1)] find_address(1) [OF assms(2)] by simp
  then show ?thesis
    using requestOf_valid(2) [OF assms(1)] by (rule getBondInfoForUser_valid_addresses)
qed

lemma body_error:
  assumes "isInitialized this"
    and "getWhitelistRequests_body Number thornode this viewer a acc = Inl e"
  shows "e = Error ''Node not found'' \<or> e = Error ''Failed to retrieve bond info''"
proof -
  obtain ru ro where acc: "acc = (ru, ro)" by (cases acc)
  from assms(1) have init: "getNodes Number this
      = Inr (getNodes_forEach Number (ThorBondEngine.actions this) [] {})"
    by (simp add: getNodes_def)
  show ?thesis
  proof (cases "requestOf Number a")
    case None
    with assms(2) show ?thesis by (simp add: acc body_cases)
  next
    case (Some request)
    show ?thesis
    proof (cases "find (\<lambda>n. address n = nodeAddress request)
               (getNodes_forEach Number (ThorBondEngine.actions this) [] {})")
      case None
      with assms(2) Some show ?thesis by (simp add: acc body_cases init)
    next
      case found: (Some nd)
      note query = body_visible_oracle [OF Some found, of thornode]
      from assms(2) Some found show ?thesis
        by (auto simp: acc body_cases init query split: if_splits sum.splits option.splits)
    qed
  qed
qed

lemma loop_error:
  assumes "isInitialized this"
    and "getWhitelistRequests_loop Number thornode this viewer xs acc = Inl e"
  shows "e = Error ''Node not found'' \<or> e = Error ''Failed to retrieve bond info''"
  using assms(2)
proof (induction xs arbitrary: acc)
  case Nil
  then show ?case by simp
next
  case (Cons a xs)
  show ?case
  proof (cases "getWhitelistRequests_body Number thornode this viewer a acc")
    case (Inl e')
    with Cons.prems have "e' = e" by simp
    with Inl body_error [OF assms(1)] show ?thesis by blast
  next
    case (Inr acc')
    with Cons.prems have "getWhitelistRequests_loop Number thornode this viewer xs acc' = Inl e"
      by simp
    then show ?thesis by (rule Cons.IH)
  qed
qed

lemma parseWhitelistMemo_None_iff:
  assumes "length (split CHR '':'' m) = 4" "split CHR '':'' m ! 0 = ''TB''"
  shows "parseWhitelistMemo Number m = None \<longleftrightarrow>
         \<not> (startsWith (split CHR '':'' m ! 1) ''thor1'' \<and> startsWith (split CHR '':'' m ! 2) ''thor1''
            \<and> js_gt (Number (split CHR '':'' m ! 3)) (Finite 0))"
  using assms by (auto simp: parseWhitelistMemo_def Let_def not_gt_zero)

lemma body_skip:
  assumes "ActionData.memo (data action) = Some m" "parseWhitelistMemo Number m = None"
  shows "getWhitelistRequests_body Number thornode this viewer action acc = Inr acc"
  using assms by (simp add: getWhitelistRequests_body_def split: prod.splits)

lemma parseListingMemo_four_fields:
  "length (split CHR '':'' m) = 4 \<Longrightarrow> parseListingMemo Number m = None"
  by (simp add: parseListingMemo_def)

lemma getNodes_forEach_skip:
  assumes "ActionData.memo (data action) = Some m" "parseListingMemo Number m = None"
  shows "getNodes_forEach Number (pre @ action # post) nodes seen
         = getNodes_forEach Number (pre @ post) nodes seen"
  using assms
  by (induction pre arbitrary: nodes seen) (auto split: option.splits)

lemma body_cong:
  "getNodes Number this = getNodes Number this' \<Longrightarrow>
   getWhitelistRequests_body Number thornode this viewer action acc
   = getWhitelistRequests_body Number thornode this' viewer action acc"
  unfolding getWhitelistRequests_body_def by (simp split: prod.splits option.splits)

lemma loop_cong:
  "getNodes Number this = getNodes Number this' \<Longrightarrow>
   getWhitelistRequests_loop Number thornode this viewer xs acc
   = getWhitelistRequests_loop Number thornode this' viewer xs acc"
  by (induction xs arbitrary: acc) (auto simp: body_cong [of Number this this'] split: sum.splits)

lemma loop_skip:
  assumes "getWhitelistRequests_body Number thornode this viewer action = Inr"
  shows "getWhitelistRequests_loop Number thornode this viewer (pre @ action # post) acc
         = getWhitelistRequests_loop Number thornode this viewer (pre @ post) acc"
  using assms
  by (induction pre arbitrary: acc) (auto split: sum.splits)

text \<open>
  Claim C10. During reconciliation an action whose memo has four fields and the tag \<open>TB\<close>
  is skipped unless both addresses start with \<open>thor1\<close> and the amount field converts to a
  number greater than 0 (\<open>NaN\<close> is not). Skipped means: the decoding gives absent; the loop
  body returns the two arrays unchanged whatever the oracle, the engine state and the
  viewer are (so no oracle query, no node lookup and no error come from it); and the call
  returns what it returns on the same cache without that action.
\<close>

theorem whitelist_memo_silently_skipped:
  assumes memo: "ActionData.memo (data action) = Some m"
    and shape: "length (split CHR '':'' m) = 4" "split CHR '':'' m ! 0 = ''TB''"
    and unless: "\<not> (startsWith (split CHR '':'' m ! 1) ''thor1''
                    \<and> startsWith (split CHR '':'' m ! 2) ''thor1''
                    \<and> js_gt (Number (split CHR '':'' m ! 3)) (Finite 0))"
  shows "parseWhitelistMemo Number m = None
    \<and> getWhitelistRequests_body Number thornode this viewer action acc = Inr acc
    \<and> getWhitelistRequests Number thornode
          \<lparr>ThorBondEngine.actions = pre @ action # post, isInitialized = b\<rparr> viewer
      = getWhitelistRequests Number thornode
          \<lparr>ThorBondEngine.actions = pre @ post, isInitialized = b\<rparr> viewer"
proof -
  let ?with = "\<lparr>ThorBondEngine.actions = pre @ action # post, isInitialized = b\<rparr>"
  let ?without = "\<lparr>ThorBondEngine.actions = pre @ post, isInitialized = b\<rparr>"
  have none: "parseWhitelistMemo Number m = None"
    using parseWhitelistMemo_None_iff [OF shape] unless by simp
  have skip: "getWhitelistRequests_body Number thornode t viewer action a = Inr a" for t a
    using memo none by (rule body_skip)
  have nodes: "getNodes Number ?with = getNodes Number ?without"
    using getNodes_forEach_skip [OF memo parseListingMemo_four_fields [OF shape(1)]]
    by (simp add: getNodes_def)
  have "getWhitelistRequests_loop Number thornode ?with viewer (pre @ action # post) ([], [])
      = getWhitelistRequests_loop Number thornode ?with viewer (pre @ post) ([], [])"
    by (rule loop_skip) (rule ext, rule skip)
  also have "\<dots> = getWhitelistRequests_loop Number thornode ?without viewer (pre @ post) ([], [])"
    using nodes by (rule loop_cong)
  finally show ?thesis
    using none skip by (cases b) (simp_all add: getWhitelistRequests_def)
qed

theorem whitelist_memo_silently_skipped_witness:
  "parseWhitelistMemo decimalNumber ''TB:thor1node:user:abc'' = None
   \<and> getWhitelistRequests decimalNumber (\<lambda>n. Inl AxiosError)
        \<lparr>ThorBondEngine.actions =
           [\<lparr>ThorBondAction.type = ''send'',
             data = \<lparr>ActionData.height = ''1'', ActionData.pools = [], ActionData.status = ''success'',
                     ActionData.metadata = \<lparr>send = None\<rparr>,
                     ActionData.memo = Some ''TB:thor1node:user:abc''\<rparr>,
             timestamp = Finite 1\<rparr>],
         isInitialized = True\<rparr> ''thor1user''
     = Inr \<lparr>operator = [], user = []\<rparr>"
proof -
  let ?a = "\<lparr>ThorBondAction.type = ''send'',
             data = \<lparr>ActionData.height = ''1'', ActionData.pools = [], ActionData.status = ''success'',
                     ActionData.metadata = \<lparr>send = None\<rparr>,
                     ActionData.memo = Some ''TB:thor1node:user:abc''\<rparr>,
             timestamp = Finite 1\<rparr>"
  have memo: "ActionData.memo (data ?a) = Some ''TB:thor1node:user:abc''" by simp
  have shape: "length (split CHR '':'' ''TB:thor1node:user:abc'') = 4"
    "split CHR '':'' ''TB:thor1node:user:abc'' ! 0 = ''TB''" by simp_all
  have unless: "\<not> (startsWith (split CHR '':'' ''TB:thor1node:user:abc'' ! 1) ''thor1''
                    \<and> startsWith (split CHR '':'' ''TB:thor1node:user:abc'' ! 2) ''thor1''
                    \<and> js_gt (decimalNumber (split CHR '':'' ''TB:thor1node:user:abc'' ! 3)) (Finite 0))"
    by (simp add: startsWith_def)
  from whitelist_memo_silently_skipped [where action = ?a and m = "''TB:thor1node:user:abc''" and Number = decimalNumber
      and thornode = "\<lambda>n. Inl AxiosError" and viewer = "''thor1user''" and pre = "[]"
      and post = "[]" and b = True and acc = "([], [])" and this = newEngine,
      OF memo shape unless]
  show ?thesis by (simp add: getWhitelistRequests_def)
qed

text \<open>
  Claim C6. While the engine is not initialized (the flag is false before \<open>initialize\<close> and
  while its request is pending), \<open>getNodes\<close>, \<open>getActions\<close> and \<open>getWhitelistRequests\<close> fail
  with the error \<open>ThorBondEngine not initialized\<close>. When \<open>initialize\<close> has completed, the
  engine it leaves is initialized: \<open>getNodes\<close> and \<open>getActions\<close> return a value, and
  \<open>getWhitelistRequests\<close> does not fail with that error.
\<close>

theorem reads_require_initialization:
  "(\<not> isInitialized this
      \<longrightarrow> getNodes Number this = Inl (Error ''ThorBondEngine not initialized'')
        \<and> getActions this = Inl (Error ''ThorBondEngine not initialized'')
        \<and> getWhitelistRequests Number thornode this viewer
            = Inl (Error ''ThorBondEngine not initialized''))
   \<and> (initialize parseInt midgard this = Inr ready
      \<longrightarrow> isInitialized ready
        \<and> (\<exists>nodes. getNodes Number ready = Inr nodes)
        \<and> (\<exists>cached. getActions ready = Inr cached)
        \<and> getWhitelistRequests Number thornode ready viewer
            \<noteq> Inl (Error ''ThorBondEngine not initialized''))"
proof (intro conjI impI)
  assume "\<not> isInitialized this"
  then show "getNodes Number this = Inl (Error ''ThorBondEngine not initialized'')"
    "getActions this = Inl (Error ''ThorBondEngine not initialized'')"
    "getWhitelistRequests Number thornode this viewer
            = Inl (Error ''ThorBondEngine not initialized'')"
    by (simp_all add: getNodes_def getActions_def getWhitelistRequests_def)
next
  assume "initialize parseInt midgard this = Inr ready"
  then show init: "isInitialized ready"
    by (auto simp: initialize_def Let_def split: if_splits sum.splits option.splits)
  then show "\<exists>nodes. getNodes Number ready = Inr nodes" "\<exists>cached. getActions ready = Inr cached"
    by (simp_all add: getNodes_def getActions_def)
  show "getWhitelistRequests Number thornode ready viewer
            \<noteq> Inl (Error ''ThorBondEngine not initialized'')"
  proof
    assume "getWhitelistRequests Number thornode ready viewer
            = Inl (Error ''ThorBondEngine not initialized'')"
    with init have "getWhitelistRequests_loop Number thornode ready viewer
        (ThorBondEngine.actions ready) ([], []) = Inl (Error ''ThorBondEngine not initialized'')"
      by (simp add: getWhitelistRequests_def)
    from loop_error [OF init this] show False by simp
  qed
qed

theorem reads_require_initialization_witness:
  "\<not> isInitialized newEngine
   \<and> getNodes decimalNumber newEngine = Inl (Error ''ThorBondEngine not initialized'')
   \<and> getActions newEngine = Inl (Error ''ThorBondEngine not initialized'')
   \<and> getWhitelistRequests decimalNumber (\<lambda>a. Inl AxiosError) newEngine ''thor1user''
       = Inl (Error ''ThorBondEngine not initialized'')
   \<and> initialize decimalNumber
        (Inr (Some \<lparr>MidgardData.actions = Some
           [\<lparr>MidgardAction.type = ''send'', date = ''1700000000'', MidgardAction.height = ''8'',
             MidgardAction.pools = [], MidgardAction.status = ''success'',
             MidgardAction.metadata = \<lparr>send = Some \<lparr>code = ''0'',
               MidgardSend.memo = ''TB:thor1x:thor1op:100:10000:5'', reason = ''''\<rparr>\<rparr>\<rparr>]\<rparr>))
        newEngine
       = Inr \<lparr>ThorBondEngine.actions =
           [\<lparr>ThorBondAction.type = ''send'',
             data = \<lparr>ActionData.height = ''8'', ActionData.pools = [],
                     ActionData.status = ''success'',
                     ActionData.metadata = \<lparr>send = Some \<lparr>code = ''0'',
                       MidgardSend.memo = ''TB:thor1x:thor1op:100:10000:5'', reason = ''''\<rparr>\<rparr>,
                     ActionData.memo = Some ''TB:thor1x:thor1op:100:10000:5''\<rparr>,
             timestamp = Finite 1700000000\<rparr>],
          isInitialized = True\<rparr>
   \<and> (\<exists>nodes. getNodes decimalNumber
        \<lparr>ThorBondEngine.actions =
           [\<lparr>ThorBondAction.type = ''send'',
             data = \<lparr>ActionData.height = ''8'', ActionData.pools = [],
                     ActionData.status = ''success'',
                     ActionData.metadata = \<lparr>send = Some \<lparr>code = ''0'',
                       MidgardSend.memo = ''TB:thor1x:thor1op:100:10000:5'', reason = ''''\<rparr>\<rparr>,
                     ActionData.memo = Some ''TB:thor1x:thor1op:100:10000:5''\<rparr>,
             timestamp = Finite 1700000000\<rparr>],
          isInitialized = True\<rparr> = Inr nodes)
   \<and> getWhitelistRequests decimalNumber (\<lambda>a. Inl AxiosError)
        \<lparr>ThorBondEngine.actions =
           [\<lparr>ThorBondAction.type = ''send'',
             data = \<lparr>ActionData.height = ''8'', ActionData.pools = [],
                     ActionData.status = ''success'',
                     ActionData.metadata = \<lparr>send = Some \<lparr>code = ''0'',
                       MidgardSend.memo = ''TB:thor1x:thor1op:100:10000:5'', reason = ''''\<rparr>\<rparr>,
                     ActionData.memo = Some ''TB:thor1x:thor1op:100:10000:5''\<rparr>,
             timestamp = Finite 1700000000\<rparr>],
          isInitialized = True\<rparr> ''thor1user''
       \<noteq> Inl (Error ''ThorBondEngine not initialized'')"
proof -
  let ?midgard = "Inr (Some \<lparr>MidgardData.actions = Some
           [\<lparr>MidgardAction.type = ''send'', date = ''1700000000'', MidgardAction.height = ''8'',
             MidgardAction.pools = [], MidgardAction.status = ''success'',
             MidgardAction.metadata = \<lparr>send = Some \<lparr>code = ''0'',
               MidgardSend.memo = ''TB:thor1x:thor1op:100:10000:5'', reason = ''''\<rparr>\<rparr>\<rparr>]\<rparr>)"
  let ?ready = "\<lparr>ThorBondEngine.actions =
           [\<lparr>ThorBondAction.type = ''send'',
             data = \<lparr>ActionData.height = ''8'', ActionData.pools = [],
                     ActionData.status = ''success'',
                     ActionData.metadata = \<lparr>send = Some \<lparr>code = ''0'',
                       MidgardSend.memo = ''TB:thor1x:thor1op:100:10000:5'', reason = ''''\<rparr>\<rparr>,
                     ActionData.memo = Some ''TB:thor1x:thor1op:100:10000:5''\<rparr>,
             timestamp = Finite 1700000000\<rparr>],
          isInitialized = True\<rparr>"
  have before: "\<not> isInitialized newEngine"
    by (simp add: newEngine_def)
  have run: "initialize decimalNumber ?midgard newEngine = Inr ?ready"
    by (simp add: initialize_def newEngine_def transformMidgardAction_def decimalNumber_def
        isDigit_def digitsValue_def)
  from reads_require_initialization
    [of newEngine decimalNumber "\<lambda>a. Inl AxiosError" "''thor1user''" decimalNumber ?midgard ?ready]
    before run
  show ?thesis by blast
qed

lemma body_status:
  assumes "getWhitelistRequests_body Number thornode this viewer a acc = Inr acc'"
    and "\<forall>r\<in>set (fst acc) \<union> set (snd acc).
           \<exists>answer. getBondInfoForUser Number thornode (address (node r)) (walletAddress r)
                      = Inr answer
                    \<and> WhitelistRequest.status r = calcStatus answer"
  shows "\<forall>r\<in>set (fst acc') \<union> set (snd acc').
           \<exists>answer. getBondInfoForUser Number thornode (address (node r)) (walletAddress r)
                      = Inr answer
                    \<and> WhitelistRequest.status r = calcStatus answer"
proof -
  obtain ru ro where acc: "acc = (ru, ro)" by (cases acc)
  from assms show ?thesis
    unfolding acc body_cases
    by (auto split: option.splits sum.splits if_splits)
qed

lemma loop_status:
  assumes "getWhitelistRequests_loop Number thornode this viewer xs acc = Inr out"
    and "\<forall>r\<in>set (fst acc) \<union> set (snd acc).
           \<exists>answer. getBondInfoForUser Number thornode (address (node r)) (walletAddress r)
                      = Inr answer
                    \<and> WhitelistRequest.status r = calcStatus answer"
  shows "\<forall>r\<in>set (user out) \<union> set (operator out).
           \<exists>answer. getBondInfoForUser Number thornode (address (node r)) (walletAddress r)
                      = Inr answer
                    \<and> WhitelistRequest.status r = calcStatus answer"
  using assms
proof (induction xs arbitrary: acc)
  case Nil
  then show ?case by auto
next
  case (Cons a xs)
  from Cons.prems(1) obtain acc' where
    b: "getWhitelistRequests_body Number thornode this viewer a acc = Inr acc'"
    and l: "getWhitelistRequests_loop Number thornode this viewer xs acc' = Inr out"
    by (auto split: sum.splits)
  from b Cons.prems(2) have "\<forall>r\<in>set (fst acc') \<union> set (snd acc').
           \<exists>answer. getBondInfoForUser Number thornode (address (node r)) (walletAddress r)
                      = Inr answer
                    \<and> WhitelistRequest.status r = calcStatus answer"
    by (rule body_status)
  with l show ?case by (rule Cons.IH)
qed

text \<open>
  Claim C3. The status computed from an oracle answer is \<open>pending\<close> when \<open>isBondProvider\<close>
  is false, whatever the bonded amount; \<open>approved\<close> when it is true and the bonded amount is
  0 (or anything else not greater than 0); \<open>bonded\<close> when it is true and the bonded amount is
  greater than 0; never \<open>rejected\<close>. Every request that \<open>getWhitelistRequests\<close> returns, in
  either output, carries the status computed this way from the oracle's answer for its node
  address and wallet address.
\<close>

theorem status_from_oracle:
  "(\<not> isBondProvider bondInfo \<longrightarrow> calcStatus bondInfo = pending)
   \<and> (isBondProvider bondInfo \<and> BondInfo.bond bondInfo = Finite 0
        \<longrightarrow> calcStatus bondInfo = approved)
   \<and> (isBondProvider bondInfo \<and> \<not> js_gt (BondInfo.bond bondInfo) (Finite 0)
        \<longrightarrow> calcStatus bondInfo = approved)
   \<and> (isBondProvider bondInfo \<and> js_gt (BondInfo.bond bondInfo) (Finite 0)
        \<longrightarrow> calcStatus bondInfo = bonded)
   \<and> calcStatus bondInfo \<noteq> rejected
   \<and> (getWhitelistRequests Number thornode this viewer = Inr out
        \<longrightarrow> (\<forall>r\<in>set (user out) \<union> set (operator out).
              \<exists>answer. getBondInfoForUser Number thornode (address (node r)) (walletAddress r)
                         = Inr answer
                       \<and> WhitelistRequest.status r = calcStatus answer))"
proof -
  have pure: "(\<not> isBondProvider bondInfo \<longrightarrow> calcStatus bondInfo = pending)
   \<and> (isBondProvider bondInfo \<and> BondInfo.bond bondInfo = Finite 0
        \<longrightarrow> calcStatus bondInfo = approved)
   \<and> (isBondProvider bondInfo \<and> \<not> js_gt (BondInfo.bond bondInfo) (Finite 0)
        \<longrightarrow> calcStatus bondInfo = approved)
   \<and> (isBondProvider bondInfo \<and> js_gt (BondInfo.bond bondInfo) (Finite 0)
        \<longrightarrow> calcStatus bondInfo = bonded)
   \<and> calcStatus bondInfo \<noteq> rejected"
    by (simp add: calcStatus_def Let_def js_gt_def)
  have conn: "\<forall>r\<in>set (user out) \<union> set (operator out).
              \<exists>answer. getBondInfoForUser Number thornode (address (node r)) (walletAddress r)
                         = Inr answer
                       \<and> WhitelistRequest.status r = calcStatus answer"
    if "getWhitelistRequests Number thornode this viewer = Inr out"
  proof -
    from that have "getWhitelistRequests_loop Number thornode this viewer
        (ThorBondEngine.actions this) ([], []) = Inr out"
      by (auto simp: getWhitelistRequests_def split: if_splits)
    then show ?thesis
      by (rule loop_status) simp
  qed
  from pure conn show ?thesis by blast
qed

theorem status_from_oracle_witness:
  "getWhitelistRequests decimalNumber
     (\<lambda>a. Inr (Some \<lparr>bond_providers = Some \<lparr>providers =
        Some [\<lparr>bond_address = ''thor1user'', BondProvider.bond = ''0''\<rparr>]\<rparr>\<rparr>))
     \<lparr>ThorBondEngine.actions =
        [\<lparr>ThorBondAction.type = ''send'',
          data = \<lparr>ActionData.height = ''8'', ActionData.pools = [],
                  ActionData.status = ''success'', ActionData.metadata = \<lparr>send = None\<rparr>,
                  ActionData.memo = Some ''TB:thor1x:thor1op:100:10000:5''\<rparr>,
          timestamp = Finite 1\<rparr>,
         \<lparr>ThorBondAction.type = ''send'',
          data = \<lparr>ActionData.height = ''9'', ActionData.pools = [],
                  ActionData.status = ''success'', ActionData.metadata = \<lparr>send = None\<rparr>,
                  ActionData.memo = Some ''TB:thor1x:thor1user:500''\<rparr>,
          timestamp = Finite 2\<rparr>],
      isInitialized = True\<rparr>
     ''thor1user''
   = Inr \<lparr>operator = [],
          user = [\<lparr>node = \<lparr>Node.operator = ''thor1op'', address = ''thor1x'',
                          bondingCapacity = Finite 10000, minimumBond = Finite 100,
                          Node.feePercentage = Finite 5,
                          Node.createdAt = DateOfNanos (Finite 1)\<rparr>,
                   walletAddress = ''thor1user'', intendedBondAmount = Finite 500,
                   WhitelistRequest.status = approved,
                   WhitelistRequest.createdAt = DateOfNanos (Finite 2)\<rparr>]\<rparr>
   \<and> calcStatus \<lparr>isBondProvider = True, BondInfo.bond = Finite 0\<rparr> = approved
   \<and> (\<exists>answer. getBondInfoForUser decimalNumber
         (\<lambda>a. Inr (Some \<lparr>bond_providers = Some \<lparr>providers =
            Some [\<lparr>bond_address = ''thor1user'', BondProvider.bond = ''0''\<rparr>]\<rparr>\<rparr>))
         ''thor1x'' ''thor1user'' = Inr answer
       \<and> approved = calcStatus answer)"
proof -
  let ?thornode = "\<lambda>a::string. (Inr (Some \<lparr>bond_providers = Some \<lparr>providers =
        Some [\<lparr>bond_address = ''thor1user'', BondProvider.bond = ''0''\<rparr>]\<rparr>\<rparr>)
        :: error + NodeData option)"
  let ?eng = "\<lparr>ThorBondEngine.actions =
        [\<lparr>ThorBondAction.type = ''send'',
          data = \<lparr>ActionData.height = ''8'', ActionData.pools = [],
                  ActionData.status = ''success'', ActionData.metadata = \<lparr>send = None\<rparr>,
                  ActionData.memo = Some ''TB:thor1x:thor1op:100:10000:5''\<rparr>,
          timestamp = Finite 1\<rparr>,
         \<lparr>ThorBondAction.type = ''send'',
          data = \<lparr>ActionData.height = ''9'', ActionData.pools = [],
                  ActionData.status = ''success'', ActionData.metadata = \<lparr>send = None\<rparr>,
                  ActionData.memo = Some ''TB:thor1x:thor1user:500''\<rparr>,
          timestamp = Finite 2\<rparr>],
      isInitialized = True\<rparr>"
  let ?entry = "\<lparr>node = \<lparr>Node.operator = ''thor1op'', address = ''thor1x'',
                          bondingCapacity = Finite 10000, minimumBond = Finite 100,
                          Node.feePercentage = Finite 5,
                          Node.createdAt = DateOfNanos (Finite 1)\<rparr>,
                   walletAddress = ''thor1user'', intendedBondAmount = Finite 500,
                   WhitelistRequest.status = approved,
                   WhitelistRequest.createdAt = DateOfNanos (Finite 2)\<rparr>"
  let ?out = "\<lparr>operator = [], user = [?entry]\<rparr>"
  let ?bi = "\<lparr>isBondProvider = True, BondInfo.bond = Finite 0\<rparr>"
  have run: "getWhitelistRequests decimalNumber ?thornode ?eng ''thor1user'' = Inr ?out"
    by (simp add: getWhitelistRequests_def getWhitelistRequests_body_def getNodes_def
        parseListingMemo_def parseWhitelistMemo_def getBondInfoForUser_def bondProviders_def
        calcStatus_def startsWith_def isNaN_def js_gt_def decimalNumber_def isDigit_def
        digitsValue_def)
  have zero: "isBondProvider ?bi \<and> BondInfo.bond ?bi = Finite 0"
    by simp
  note inst = status_from_oracle [of ?bi decimalNumber ?thornode ?eng "''thor1user''" ?out]
  from inst zero have st: "calcStatus ?bi = approved"
    by blast
  from inst run have "\<forall>r\<in>set (user ?out) \<union> set (operator ?out).
      \<exists>answer. getBondInfoForUser decimalNumber ?thornode (address (node r)) (walletAddress r)
                 = Inr answer
               \<and> WhitelistRequest.status r = calcStatus answer"
    by blast
  then have "\<exists>answer. getBondInfoForUser decimalNumber ?thornode ''thor1x'' ''thor1user''
                 = Inr answer
               \<and> approved = calcStatus answer"
    by simp
  with run st show ?thesis by blast
qed







lemma find_orphan:
  "x \<notin> address ` set nodes \<Longrightarrow> find (\<lambda>n. address n = x) nodes = None"
  by (induction nodes) auto

lemma find_present:
  assumes "x \<in> address ` set nodes"
  shows "\<exists>nd. find (\<lambda>n. address n = x) nodes = Some nd"
proof (cases "find (\<lambda>n. address n = x) nodes")
  case None
  with assms show ?thesis by (auto simp: find_None_iff)
next
  case (Some nd)
  then show ?thesis by blast
qed

lemma loop_orphan_head:
  assumes "getNodes Number this = Inr nodes" "requestOf Number a = Some request"
    and "nodeAddress request \<notin> address ` set nodes"
  shows "getWhitelistRequests_loop Number thornode this viewer (a # post) acc
         = Inl (Error ''Node not found'')"
proof -
  obtain ru ro where acc: "acc = (ru, ro)" by (cases acc)
  from assms(3) have "find (\<lambda>n. address n = nodeAddress request) nodes = None"
    by (rule find_orphan)
  with assms(1,2) show ?thesis by (simp add: acc body_cases)
qed

lemma loop_prefix_answered:
  assumes registry: "getNodes Number this = Inr nodes"
    and "\<forall>b\<in>set pre. \<forall>r. requestOf Number b = Some r
           \<longrightarrow> nodeAddress r \<in> address ` set nodes"
    and "\<forall>(b, r, n)\<in>set (resolvedRequests Number nodes pre).
           userAddress r = viewer \<or> Node.operator n = viewer
           \<longrightarrow> (\<exists>d. thornode (address n) = Inr d)"
  shows "\<exists>acc'. getWhitelistRequests_loop Number thornode this viewer (pre @ rest) acc
         = getWhitelistRequests_loop Number thornode this viewer rest acc'"
  using assms(2,3)
proof (induction pre arbitrary: acc)
  case Nil
  have "getWhitelistRequests_loop Number thornode this viewer ([] @ rest) acc
      = getWhitelistRequests_loop Number thornode this viewer rest acc"
    by simp
  then show ?case by (rule exI)
next
  case (Cons b pre)
  obtain ru ro where acc: "acc = (ru, ro)" by (cases acc)
  from Cons.prems(1) have resolved: "\<forall>c\<in>set pre. \<forall>r. requestOf Number c = Some r
           \<longrightarrow> nodeAddress r \<in> address ` set nodes"
    by simp
  show ?case
  proof (cases "requestOf Number b")
    case None
    with Cons.prems(2)
    have "\<forall>(c, r, n)\<in>set (resolvedRequests Number nodes pre).
           userAddress r = viewer \<or> Node.operator n = viewer
           \<longrightarrow> (\<exists>d. thornode (address n) = Inr d)"
      by simp
    from Cons.IH [OF resolved this, of acc] None show ?thesis
      by (simp add: acc body_cases)
  next
    case (Some r)
    with Cons.prems(1) have "nodeAddress r \<in> address ` set nodes" by simp
    then obtain nd where found: "find (\<lambda>n. address n = nodeAddress r) nodes = Some nd"
      using find_present by blast
    from Some found Cons.prems(2)
    have later: "\<forall>(c, r, n)\<in>set (resolvedRequests Number nodes pre).
           userAddress r = viewer \<or> Node.operator n = viewer
           \<longrightarrow> (\<exists>d. thornode (address n) = Inr d)"
      and here: "userAddress r = viewer \<or> Node.operator nd = viewer
           \<longrightarrow> (\<exists>d. thornode (address nd) = Inr d)"
      by simp_all
    note next_iter = Cons.IH [OF resolved later]
    note query = body_visible_oracle [OF Some found, of thornode]
    show ?thesis
    proof (cases "userAddress r = viewer \<or> Node.operator nd = viewer")
      case False
      with Some found registry next_iter [of acc] show ?thesis
        by (simp add: acc body_cases)
    next
      case True
      with here obtain d where "thornode (address nd) = Inr d" by blast
      then have "\<exists>answer.
          getBondInfoForUser Number thornode (address nd) (userAddress r) = Inr answer"
        by (cases "find (\<lambda>bp. bond_address bp = userAddress r) (bondProviders d)")
          (simp_all add: query)
      then obtain answer where
        answer: "getBondInfoForUser Number thornode (address nd) (userAddress r) = Inr answer"
        by blast
      let ?entry = "\<lparr>node = nd, walletAddress = userAddress r,
          intendedBondAmount = amount r, WhitelistRequest.status = calcStatus answer,
          WhitelistRequest.createdAt = DateOfNanos (timestamp b)\<rparr>"
      let ?acc = "(if userAddress r = viewer then ru @ [?entry] else ru,
          if Node.operator nd = viewer then ro @ [?entry] else ro)"
      from Some found registry True answer
      have "getWhitelistRequests_body Number thornode this viewer b acc = Inr ?acc"
        by (simp add: acc body_cases)
      with next_iter [of ?acc] show ?thesis by simp
    qed
  qed
qed

lemma loop_prefix_rejected:
  assumes registry: "getNodes Number this = Inr nodes"
    and "\<forall>b\<in>set pre. \<forall>r. requestOf Number b = Some r
           \<longrightarrow> nodeAddress r \<in> address ` set nodes"
    and "\<not> (\<forall>(b, r, n)\<in>set (resolvedRequests Number nodes pre).
           userAddress r = viewer \<or> Node.operator n = viewer
           \<longrightarrow> (\<exists>d. thornode (address n) = Inr d))"
  shows "getWhitelistRequests_loop Number thornode this viewer (pre @ rest) acc
         = Inl (Error ''Failed to retrieve bond info'')"
  using assms(2,3)
proof (induction pre arbitrary: acc)
  case Nil
  then show ?case by simp
next
  case (Cons b pre)
  obtain ru ro where acc: "acc = (ru, ro)" by (cases acc)
  from Cons.prems(1) have resolved: "\<forall>c\<in>set pre. \<forall>r. requestOf Number c = Some r
           \<longrightarrow> nodeAddress r \<in> address ` set nodes"
    by simp
  show ?case
  proof (cases "requestOf Number b")
    case None
    with Cons.prems(2)
    have "\<not> (\<forall>(c, r, n)\<in>set (resolvedRequests Number nodes pre).
           userAddress r = viewer \<or> Node.operator n = viewer
           \<longrightarrow> (\<exists>d. thornode (address n) = Inr d))"
      by simp
    from Cons.IH [OF resolved this, of acc] None show ?thesis
      by (simp add: acc body_cases)
  next
    case (Some r)
    with Cons.prems(1) have "nodeAddress r \<in> address ` set nodes" by simp
    then obtain nd where found: "find (\<lambda>n. address n = nodeAddress r) nodes = Some nd"
      using find_present by blast
    note query = body_visible_oracle [OF Some found, of thornode]
    show ?thesis
    proof (cases "(userAddress r = viewer \<or> Node.operator nd = viewer)
                  \<and> (\<forall>d. thornode (address nd) \<noteq> Inr d)")
      case True
      then obtain e where "thornode (address nd) = Inl e"
        by (cases "thornode (address nd)") auto
      then have "getBondInfoForUser Number thornode (address nd) (userAddress r)
          = Inl (Error ''Failed to retrieve bond info'')"
        by (simp add: query)
      with Some found registry True show ?thesis
        by (simp add: acc body_cases)
    next
      case False
      with Some found Cons.prems(2)
      have later: "\<not> (\<forall>(c, r, n)\<in>set (resolvedRequests Number nodes pre).
           userAddress r = viewer \<or> Node.operator n = viewer
           \<longrightarrow> (\<exists>d. thornode (address n) = Inr d))"
        by auto
      note next_iter = Cons.IH [OF resolved later]
      show ?thesis
      proof (cases "userAddress r = viewer \<or> Node.operator nd = viewer")
        case invisible: False
        with Some found registry next_iter [of acc] show ?thesis
          by (simp add: acc body_cases)
      next
        case visible: True
        with False obtain d where "thornode (address nd) = Inr d" by blast
        then have "\<exists>answer.
            getBondInfoForUser Number thornode (address nd) (userAddress r) = Inr answer"
          by (cases "find (\<lambda>bp. bond_address bp = userAddress r) (bondProviders d)")
            (simp_all add: query)
        then obtain answer where
          answer: "getBondInfoForUser Number thornode (address nd) (userAddress r) = Inr answer"
          by blast
        let ?entry = "\<lparr>node = nd, walletAddress = userAddress r,
            intendedBondAmount = amount r, WhitelistRequest.status = calcStatus answer,
            WhitelistRequest.createdAt = DateOfNanos (timestamp b)\<rparr>"
        let ?acc = "(if userAddress r = viewer then ru @ [?entry] else ru,
            if Node.operator nd = viewer then ro @ [?entry] else ro)"
        from Some found registry visible answer
        have "getWhitelistRequests_body Number thornode this viewer b acc = Inr ?acc"
          by (simp add: acc body_cases)
        with next_iter [of ?acc] show ?thesis by simp
      qed
    qed
  qed
qed

lemma first_orphan_result:
  assumes registry: "getNodes Number this = Inr nodes"
    and cache: "ThorBondEngine.actions this = pre @ f # post"
    and orphan: "requestOf Number f = Some rf" "nodeAddress rf \<notin> address ` set nodes"
    and first: "\<forall>b\<in>set pre. \<forall>r. requestOf Number b = Some r
           \<longrightarrow> nodeAddress r \<in> address ` set nodes"
  shows "getWhitelistRequests Number thornode this viewer
         = Inl (Error (if \<forall>(b, r, n)\<in>set (resolvedRequests Number nodes pre).
                            userAddress r = viewer \<or> Node.operator n = viewer
                            \<longrightarrow> (\<exists>d. thornode (address n) = Inr d)
                       then ''Node not found'' else ''Failed to retrieve bond info''))"
proof -
  from registry have "isInitialized this"
    by (auto simp: getNodes_def split: if_splits)
  then have run: "getWhitelistRequests Number thornode this viewer
      = getWhitelistRequests_loop Number thornode this viewer (pre @ f # post) ([], [])"
    by (simp add: getWhitelistRequests_def cache)
  show ?thesis
  proof (cases "\<forall>(b, r, n)\<in>set (resolvedRequests Number nodes pre).
                            userAddress r = viewer \<or> Node.operator n = viewer
                            \<longrightarrow> (\<exists>d. thornode (address n) = Inr d)")
    case True
    from loop_prefix_answered [OF registry first True, of "f # post" "([], [])"]
    obtain acc' where "getWhitelistRequests_loop Number thornode this viewer
        (pre @ f # post) ([], [])
      = getWhitelistRequests_loop Number thornode this viewer (f # post) acc'"
      by blast
    also have "\<dots> = Inl (Error ''Node not found'')"
      using registry orphan by (rule loop_orphan_head)
    finally show ?thesis using True by (simp add: run)
  next
    case False
    from loop_prefix_rejected [OF registry first False, of "f # post" "([], [])"] False
    show ?thesis by (simp add: run)
  qed
qed

text \<open>
  Claim C4, as amended. On an initialized engine, when an action of the cache carries a
  decodable whitelist request whose node address is the address of no Node of the registry,
  \<open>getWhitelistRequests\<close> fails and returns no result. The loop stops at the first such
  action or before it: the error is \<open>Node not found\<close> when the node-state service answers
  every query made before that action is reached (one for each earlier request whose user or
  whose node's operator is the viewer), and \<open>Failed to retrieve bond info\<close> when it
  rejects one of them. What the service would answer for later actions plays no part.
\<close>

theorem orphan_request_aborts_batch:
  assumes "getNodes Number this = Inr nodes"
    and "a \<in> set (ThorBondEngine.actions this)"
    and "requestOf Number a = Some request"
    and "nodeAddress request \<notin> address ` set nodes"
  shows "(getWhitelistRequests Number thornode this viewer = Inl (Error ''Node not found'')
          \<or> getWhitelistRequests Number thornode this viewer
             = Inl (Error ''Failed to retrieve bond info''))
    \<and> (\<exists>pre f post rf.
          ThorBondEngine.actions this = pre @ f # post
          \<and> requestOf Number f = Some rf \<and> nodeAddress rf \<notin> address ` set nodes
          \<and> (\<forall>b\<in>set pre. \<forall>r. requestOf Number b = Some r
                \<longrightarrow> nodeAddress r \<in> address ` set nodes))
    \<and> (\<forall>pre f post rf.
          ThorBondEngine.actions this = pre @ f # post
          \<and> requestOf Number f = Some rf \<and> nodeAddress rf \<notin> address ` set nodes
          \<and> (\<forall>b\<in>set pre. \<forall>r. requestOf Number b = Some r
                \<longrightarrow> nodeAddress r \<in> address ` set nodes)
          \<longrightarrow> getWhitelistRequests Number thornode this viewer
              = Inl (Error (if \<forall>(b, r, n)\<in>set (resolvedRequests Number nodes pre).
                                 userAddress r = viewer \<or> Node.operator n = viewer
                                 \<longrightarrow> (\<exists>d. thornode (address n) = Inr d)
                            then ''Node not found'' else ''Failed to retrieve bond info'')))"
proof -
  have "\<exists>x\<in>set (ThorBondEngine.actions this).
          \<exists>r. requestOf Number x = Some r \<and> nodeAddress r \<notin> address ` set nodes"
    using assms(2,3,4) by blast
  then obtain pre f post where cache: "ThorBondEngine.actions this = pre @ f # post"
    and f: "\<exists>r. requestOf Number f = Some r \<and> nodeAddress r \<notin> address ` set nodes"
    and pre: "\<forall>b\<in>set pre.
        \<not> (\<exists>r. requestOf Number b = Some r \<and> nodeAddress r \<notin> address ` set nodes)"
    by (rule split_list_first_propE) blast
  from f obtain rf where rf: "requestOf Number f = Some rf"
    "nodeAddress rf \<notin> address ` set nodes"
    by blast
  from pre have first: "\<forall>b\<in>set pre. \<forall>r. requestOf Number b = Some r
      \<longrightarrow> nodeAddress r \<in> address ` set nodes"
    by blast
  have exact: "getWhitelistRequests Number thornode this viewer
      = Inl (Error (if \<forall>(b, r, n)\<in>set (resolvedRequests Number nodes p).
                         userAddress r = viewer \<or> Node.operator n = viewer
                         \<longrightarrow> (\<exists>d. thornode (address n) = Inr d)
                    then ''Node not found'' else ''Failed to retrieve bond info''))"
    if "ThorBondEngine.actions this = p @ g # q" "requestOf Number g = Some rg"
      "nodeAddress rg \<notin> address ` set nodes"
      "\<forall>b\<in>set p. \<forall>r. requestOf Number b = Some r
          \<longrightarrow> nodeAddress r \<in> address ` set nodes"
    for p g q rg
    using assms(1) that by (rule first_orphan_result)
  have either: "getWhitelistRequests Number thornode this viewer = Inl (Error ''Node not found'')
      \<or> getWhitelistRequests Number thornode this viewer
         = Inl (Error ''Failed to retrieve bond info'')"
    using exact [OF cache rf first] by (simp split: if_splits)
  have ex: "\<exists>pre f post rf.
          ThorBondEngine.actions this = pre @ f # post
          \<and> requestOf Number f = Some rf \<and> nodeAddress rf \<notin> address ` set nodes
          \<and> (\<forall>b\<in>set pre. \<forall>r. requestOf Number b = Some r
                \<longrightarrow> nodeAddress r \<in> address ` set nodes)"
    using cache rf first by blast
  from either ex exact show ?thesis by blast
qed

text \<open>The claim as stated fails when the oracle query for an earlier request fails: the
  call then fails with that query's error, not with \<open>Node not found\<close>, although the last
  action carries a decodable request for an address that the registry does not have.\<close>

theorem orphan_request_counterexample:
  "getNodes decimalNumber
     \<lparr>ThorBondEngine.actions =
        [\<lparr>ThorBondAction.type = ''send'',
          data = \<lparr>ActionData.height = ''8'', ActionData.pools = [],
                  ActionData.status = ''success'', ActionData.metadata = \<lparr>send = None\<rparr>,
                  ActionData.memo = Some ''TB:thor1x:thor1op:100:10000:5''\<rparr>,
          timestamp = Finite 1\<rparr>,
         \<lparr>ThorBondAction.type = ''send'',
          data = \<lparr>ActionData.height = ''9'', ActionData.pools = [],
                  ActionData.status = ''success'', ActionData.metadata = \<lparr>send = None\<rparr>,
                  ActionData.memo = Some ''TB:thor1x:thor1user:500''\<rparr>,
          timestamp = Finite 2\<rparr>,
         \<lparr>ThorBondAction.type = ''send'',
          data = \<lparr>ActionData.height = ''10'', ActionData.pools = [],
                  ActionData.status = ''success'', ActionData.metadata = \<lparr>send = None\<rparr>,
                  ActionData.memo = Some ''TB:thor1y:thor1user:300''\<rparr>,
          timestamp = Finite 3\<rparr>],
      isInitialized = True\<rparr>
   = Inr [\<lparr>Node.operator = ''thor1op'', address = ''thor1x'',
           bondingCapacity = Finite 10000, minimumBond = Finite 100,
           Node.feePercentage = Finite 5, Node.createdAt = DateOfNanos (Finite 1)\<rparr>]
   \<and> requestOf decimalNumber
        \<lparr>ThorBondAction.type = ''send'',
          data = \<lparr>ActionData.height = ''10'', ActionData.pools = [],
                  ActionData.status = ''success'', ActionData.metadata = \<lparr>send = None\<rparr>,
                  ActionData.memo = Some ''TB:thor1y:thor1user:300''\<rparr>,
          timestamp = Finite 3\<rparr>
       = Some \<lparr>nodeAddress = ''thor1y'', userAddress = ''thor1user'', amount = Finite 300\<rparr>
   \<and> getWhitelistRequests decimalNumber (\<lambda>a. Inl AxiosError)
     \<lparr>ThorBondEngine.actions =
        [\<lparr>ThorBondAction.type = ''send'',
          data = \<lparr>ActionData.height = ''8'', ActionData.pools = [],
                  ActionData.status = ''success'', ActionData.metadata = \<lparr>send = None\<rparr>,
                  ActionData.memo = Some ''TB:thor1x:thor1op:100:10000:5''\<rparr>,
          timestamp = Finite 1\<rparr>,
         \<lparr>ThorBondAction.type = ''send'',
          data = \<lparr>ActionData.height = ''9'', ActionData.pools = [],
                  ActionData.status = ''success'', ActionData.metadata = \<lparr>send = None\<rparr>,
                  ActionData.memo = Some ''TB:thor1x:thor1user:500''\<rparr>,
          timestamp = Finite 2\<rparr>,
         \<lparr>ThorBondAction.type = ''send'',
          data = \<lparr>ActionData.height = ''10'', ActionData.pools = [],
                  ActionData.status = ''success'', ActionData.metadata = \<lparr>send = None\<rparr>,
                  ActionData.memo = Some ''TB:thor1y:thor1user:300''\<rparr>,
          timestamp = Finite 3\<rparr>],
      isInitialized = True\<rparr>
     ''thor1user''
   = Inl (Error ''Failed to retrieve bond info'')
   \<and> Error ''Failed to retrieve bond info'' \<noteq> Error ''Node not found''"
  by (simp add: getWhitelistRequests_def getWhitelistRequests_body_def getNodes_def requestOf_def
      parseListingMemo_def parseWhitelistMemo_def getBondInfoForUser_def
      startsWith_def isNaN_def decimalNumber_def isDigit_def digitsValue_def)

theorem orphan_request_aborts_batch_witness:
  "getWhitelistRequests decimalNumber (\<lambda>a. Inr None)
   \<lparr>ThorBondEngine.actions =
     [\<lparr>ThorBondAction.type = ''send'',
      data = \<lparr>ActionData.height = ''8'', ActionData.pools = [],
              ActionData.status = ''success'', ActionData.metadata = \<lparr>send = None\<rparr>,
              ActionData.memo = Some ''TB:thor1x:thor1op:100:10000:5''\<rparr>,
      timestamp = Finite 1\<rparr>,
      \<lparr>ThorBondAction.type = ''send'',
      data = \<lparr>ActionData.height = ''9'', ActionData.pools = [],
              ActionData.status = ''success'', ActionData.metadata = \<lparr>send = None\<rparr>,
              ActionData.memo = Some ''TB:thor1x:thor1user:500''\<rparr>,
      timestamp = Finite 2\<rparr>,
      \<lparr>ThorBondAction.type = ''send'',
      data = \<lparr>ActionData.height = ''10'', ActionData.pools = [],
              ActionData.status = ''success'', ActionData.metadata = \<lparr>send = None\<rparr>,
              ActionData.memo = Some ''TB:thor1y:thor1user:300''\<rparr>,
      timestamp = Finite 3\<rparr>,
      \<lparr>ThorBondAction.type = ''send'',
      data = \<lparr>ActionData.height = ''11'', ActionData.pools = [],
              ActionData.status = ''success'', ActionData.metadata = \<lparr>send = None\<rparr>,
              ActionData.memo = Some ''TB:thor1x:thor1user:700''\<rparr>,
      timestamp = Finite 4\<rparr>],
   isInitialized = True\<rparr>
   ''thor1user''
   = Inl (Error ''Node not found'')
   \<and> getWhitelistRequests decimalNumber (\<lambda>a. Inl AxiosError)
   \<lparr>ThorBondEngine.actions =
     [\<lparr>ThorBondAction.type = ''send'',
      data = \<lparr>ActionData.height = ''8'', ActionData.pools = [],
              ActionData.status = ''success'', ActionData.metadata = \<lparr>send = None\<rparr>,
              ActionData.memo = Some ''TB:thor1x:thor1op:100:10000:5''\<rparr>,
      timestamp = Finite 1\<rparr>,
      \<lparr>ThorBondAction.type = ''send'',
      data = \<lparr>ActionData.height = ''10'', ActionData.pools = [],
              ActionData.status = ''success'', ActionData.metadata = \<lparr>send = None\<rparr>,
              ActionData.memo = Some ''TB:thor1y:thor1user:300''\<rparr>,
      timestamp = Finite 3\<rparr>,
      \<lparr>ThorBondAction.type = ''send'',
      data = \<lparr>ActionData.height = ''11'', ActionData.pools = [],
              ActionData.status = ''success'', ActionData.metadata = \<lparr>send = None\<rparr>,
              ActionData.memo = Some ''TB:thor1x:thor1user:700''\<rparr>,
      timestamp = Finite 4\<rparr>],
   isInitialized = True\<rparr>
   ''thor1user''
   = Inl (Error ''Node not found'')"
proof -
  let ?listing = "\<lparr>ThorBondAction.type = ''send'',
      data = \<lparr>ActionData.height = ''8'', ActionData.pools = [],
              ActionData.status = ''success'', ActionData.metadata = \<lparr>send = None\<rparr>,
              ActionData.memo = Some ''TB:thor1x:thor1op:100:10000:5''\<rparr>,
      timestamp = Finite 1\<rparr>"
  let ?before = "\<lparr>ThorBondAction.type = ''send'',
      data = \<lparr>ActionData.height = ''9'', ActionData.pools = [],
              ActionData.status = ''success'', ActionData.metadata = \<lparr>send = None\<rparr>,
              ActionData.memo = Some ''TB:thor1x:thor1user:500''\<rparr>,
      timestamp = Finite 2\<rparr>"
  let ?orphan = "\<lparr>ThorBondAction.type = ''send'',
      data = \<lparr>ActionData.height = ''10'', ActionData.pools = [],
              ActionData.status = ''success'', ActionData.metadata = \<lparr>send = None\<rparr>,
              ActionData.memo = Some ''TB:thor1y:thor1user:300''\<rparr>,
      timestamp = Finite 3\<rparr>"
  let ?after = "\<lparr>ThorBondAction.type = ''send'',
      data = \<lparr>ActionData.height = ''11'', ActionData.pools = [],
              ActionData.status = ''success'', ActionData.metadata = \<lparr>send = None\<rparr>,
              ActionData.memo = Some ''TB:thor1x:thor1user:700''\<rparr>,
      timestamp = Finite 4\<rparr>"
  let ?eng1 = "\<lparr>ThorBondEngine.actions = [?listing, ?before, ?orphan, ?after],
      isInitialized = True\<rparr>"
  let ?eng2 = "\<lparr>ThorBondEngine.actions = [?listing, ?orphan, ?after], isInitialized = True\<rparr>"
  let ?nd = "\<lparr>Node.operator = ''thor1op'', address = ''thor1x'',
      bondingCapacity = Finite 10000, minimumBond = Finite 100,
      Node.feePercentage = Finite 5, Node.createdAt = DateOfNanos (Finite 1)\<rparr>"
  let ?request = "\<lparr>nodeAddress = ''thor1y'', userAddress = ''thor1user'', amount = Finite 300\<rparr>"
  let ?answers = "\<lambda>a::string. (Inr None :: error + NodeData option)"
  let ?rejects = "\<lambda>a::string. (Inl AxiosError :: error + NodeData option)"
  have registry1: "getNodes decimalNumber ?eng1 = Inr [?nd]"
    by (simp add: getNodes_def parseListingMemo_def parseWhitelistMemo_def decimalNumber_def
        isDigit_def digitsValue_def)
  have registry2: "getNodes decimalNumber ?eng2 = Inr [?nd]"
    by (simp add: getNodes_def parseListingMemo_def parseWhitelistMemo_def decimalNumber_def
        isDigit_def digitsValue_def)
  have cached1: "?orphan \<in> set (ThorBondEngine.actions ?eng1)"
    by simp
  have cached2: "?orphan \<in> set (ThorBondEngine.actions ?eng2)"
    by simp
  have decoded: "requestOf decimalNumber ?orphan = Some ?request"
    by (simp add: requestOf_def parseWhitelistMemo_def startsWith_def isNaN_def
        decimalNumber_def isDigit_def digitsValue_def)
  have unknown: "nodeAddress ?request \<notin> address ` set [?nd]"
    by simp
  have listing: "requestOf decimalNumber ?listing = None"
    by (simp add: requestOf_def parseWhitelistMemo_def startsWith_def isNaN_def
        decimalNumber_def isDigit_def digitsValue_def)
  have before: "requestOf decimalNumber ?before
      = Some \<lparr>nodeAddress = ''thor1x'', userAddress = ''thor1user'', amount = Finite 500\<rparr>"
    by (simp add: requestOf_def parseWhitelistMemo_def startsWith_def isNaN_def
        decimalNumber_def isDigit_def digitsValue_def)
  have split1: "ThorBondEngine.actions ?eng1 = [?listing, ?before] @ ?orphan # [?after]"
    by simp
  have split2: "ThorBondEngine.actions ?eng2 = [?listing] @ ?orphan # [?after]"
    by simp
  have first1: "\<forall>b\<in>set [?listing, ?before]. \<forall>r. requestOf decimalNumber b = Some r
      \<longrightarrow> nodeAddress r \<in> address ` set [?nd]"
    using listing before by auto
  have first2: "\<forall>b\<in>set [?listing]. \<forall>r. requestOf decimalNumber b = Some r
      \<longrightarrow> nodeAddress r \<in> address ` set [?nd]"
    using listing by auto
  have queries1: "\<forall>(b, r, n)\<in>set (resolvedRequests decimalNumber [?nd] [?listing, ?before]).
        userAddress r = ''thor1user'' \<or> Node.operator n = ''thor1user''
        \<longrightarrow> (\<exists>d. ?answers (address n) = Inr d)"
    by simp
  have queries2: "\<forall>(b, r, n)\<in>set (resolvedRequests decimalNumber [?nd] [?listing]).
        userAddress r = ''thor1user'' \<or> Node.operator n = ''thor1user''
        \<longrightarrow> (\<exists>d. ?rejects (address n) = Inr d)"
    using listing by simp
  from orphan_request_aborts_batch [OF registry1 cached1 decoded unknown,
      of ?answers "''thor1user''"]
  have "\<And>pre f post rf.
          ThorBondEngine.actions ?eng1 = pre @ f # post
          \<and> requestOf decimalNumber f = Some rf \<and> nodeAddress rf \<notin> address ` set [?nd]
          \<and> (\<forall>b\<in>set pre. \<forall>r. requestOf decimalNumber b = Some r
                \<longrightarrow> nodeAddress r \<in> address ` set [?nd])
          \<Longrightarrow> getWhitelistRequests decimalNumber ?answers ?eng1 ''thor1user''
              = Inl (Error (if \<forall>(b, r, n)\<in>set (resolvedRequests decimalNumber [?nd] pre).
                                 userAddress r = ''thor1user'' \<or> Node.operator n = ''thor1user''
                                 \<longrightarrow> (\<exists>d. ?answers (address n) = Inr d)
                            then ''Node not found'' else ''Failed to retrieve bond info''))"
    by blast
  from this [of "[?listing, ?before]" ?orphan "[?after]" ?request] split1 decoded unknown first1
  have "getWhitelistRequests decimalNumber ?answers ?eng1 ''thor1user''
      = Inl (Error (if \<forall>(b, r, n)\<in>set (resolvedRequests decimalNumber [?nd] [?listing, ?before]).
        userAddress r = ''thor1user'' \<or> Node.operator n = ''thor1user''
        \<longrightarrow> (\<exists>d. ?answers (address n) = Inr d)
                    then ''Node not found'' else ''Failed to retrieve bond info''))"
    by blast
  with queries1 have run1: "getWhitelistRequests decimalNumber ?answers ?eng1 ''thor1user''
      = Inl (Error ''Node not found'')"
    by simp
  from orphan_request_aborts_batch [OF registry2 cached2 decoded unknown,
      of ?rejects "''thor1user''"]
  have "\<And>pre f post rf.
          ThorBondEngine.actions ?eng2 = pre @ f # post
          \<and> requestOf decimalNumber f = Some rf \<and> nodeAddress rf \<notin> address ` set [?nd]
          \<and> (\<forall>b\<in>set pre. \<forall>r. requestOf decimalNumber b = Some r
                \<longrightarrow> nodeAddress r \<in> address ` set [?nd])
          \<Longrightarrow> getWhitelistRequests decimalNumber ?rejects ?eng2 ''thor1user''
              = Inl (Error (if \<forall>(b, r, n)\<in>set (resolvedRequests decimalNumber [?nd] pre).
                                 userAddress r = ''thor1user'' \<or> Node.operator n = ''thor1user''
                                 \<longrightarrow> (\<exists>d. ?rejects (address n) = Inr d)
                            then ''Node not found'' else ''Failed to retrieve bond info''))"
    by blast
  from this [of "[?listing]" ?orphan "[?after]" ?request] split2 decoded unknown first2
  have "getWhitelistRequests decimalNumber ?rejects ?eng2 ''thor1user''
      = Inl (Error (if \<forall>(b, r, n)\<in>set (resolvedRequests decimalNumber [?nd] [?listing]).
        userAddress r = ''thor1user'' \<or> Node.operator n = ''thor1user''
        \<longrightarrow> (\<exists>d. ?rejects (address n) = Inr d)
                    then ''Node not found'' else ''Failed to retrieve bond info''))"
    by blast
  with queries2 have run2: "getWhitelistRequests decimalNumber ?rejects ?eng2 ''thor1user''
      = Inl (Error ''Node not found'')"
    by simp
  from run1 run2 show ?thesis by (rule conjI)
qed

end
